theory Spec2Isabelle
  imports Main "HOL-Library.AList" "HOL-Library.Sublist" "HOL-Library.Word"
begin

section \<open>Python values as produced by \<^verbatim>\<open>json.load\<close>\<close>

text \<open>
  \<^verbatim>\<open>trakt_converter.py\<close> works on whatever \<^verbatim>\<open>json.load\<close> returns: \<^verbatim>\<open>None\<close>, booleans,
  unbounded integers, floats, strings, lists and dicts. A float is kept as its IEEE-754
  binary64 bit pattern; the program only ever tests it for truth and copies it. A dict is
  an association list in insertion order (Python dicts are ordered); a dict built by
  \<^verbatim>\<open>json.load\<close> has pairwise distinct keys, and every lookup below goes through
  \<^const>\<open>map_of\<close>.
\<close>

datatype json =
    JNull
  | JBool bool
  | JInt int
  | JFloat "64 word"
  | JStr string
  | JArr "json list"
  | JObj "(string \<times> json) list"

type_synonym dict = "(string \<times> json) list"

text \<open>The exceptions the attribute, membership and subscript operations can raise.\<close>

datatype py_error = AttributeError | TypeError | KeyError

text \<open>Python truth value testing: \<^verbatim>\<open>None\<close>, \<^verbatim>\<open>False\<close>, zero (for a float: both signed
  zeros, that is, all bits below the sign bit clear), and empty strings, lists and dicts
  are false.\<close>

fun truthy :: "json \<Rightarrow> bool" where
  "truthy JNull = False"
| "truthy (JBool b) = b"
| "truthy (JInt n) = (n \<noteq> 0)"
| "truthy (JFloat w) = (take_bit 63 w \<noteq> 0)"
| "truthy (JStr s) = (s \<noteq> [])"
| "truthy (JArr xs) = (xs \<noteq> [])"
| "truthy (JObj d) = (d \<noteq> [])"

text \<open>\<^verbatim>\<open>d.get(k)\<close> on a dict: a missing key gives \<^verbatim>\<open>None\<close>.\<close>

definition dict_get :: "dict \<Rightarrow> string \<Rightarrow> json" where
  "dict_get d k = (case map_of d k of None \<Rightarrow> JNull | Some v \<Rightarrow> v)"

text \<open>\<^verbatim>\<open>x.get(k)\<close> on any value: only a dict has the method.\<close>

fun py_get :: "json \<Rightarrow> string \<Rightarrow> py_error + json" where
  "py_get (JObj d) k = Inr (dict_get d k)"
| "py_get _ k = Inl AttributeError"

text \<open>\<^verbatim>\<open>k in x\<close> for a string \<^verbatim>\<open>k\<close>: key membership in a dict, substring test in a
  string, element membership in a list, \<^verbatim>\<open>TypeError\<close> otherwise.\<close>

fun py_contains :: "string \<Rightarrow> json \<Rightarrow> py_error + bool" where
  "py_contains k (JObj d) = Inr (map_of d k \<noteq> None)"
| "py_contains k (JStr s) = Inr (sublist k s)"
| "py_contains k (JArr xs) = Inr (JStr k \<in> set xs)"
| "py_contains k _ = Inl TypeError"

text \<open>\<^verbatim>\<open>x[k]\<close> for a string \<^verbatim>\<open>k\<close>: \<^verbatim>\<open>KeyError\<close> on a dict without the key,
  \<^verbatim>\<open>TypeError\<close> on everything that is not a dict.\<close>

fun py_getitem :: "json \<Rightarrow> string \<Rightarrow> py_error + json" where
  "py_getitem (JObj d) k = (case map_of d k of None \<Rightarrow> Inl KeyError | Some v \<Rightarrow> Inr v)"
| "py_getitem _ k = Inl TypeError"

text \<open>Sequencing of computations that may raise: the first exception ends the run.\<close>

definition err_bind :: "'e + 'a \<Rightarrow> ('a \<Rightarrow> 'e + 'b) \<Rightarrow> 'e + 'b" where
  "err_bind m f = (case m of Inl e \<Rightarrow> Inl e | Inr x \<Rightarrow> f x)"

section \<open>The identifier selector\<close>

text \<open>
  \<^verbatim>\<open>extract_id(ids)\<close>, lines 23-36. The result is the pair \<^verbatim>\<open>(key, value)\<close>; the key is a
  string or \<^verbatim>\<open>None\<close>, and the value \<^verbatim>\<open>None\<close> is \<^const>\<open>JNull\<close>.
\<close>

type_synonym id_pair = "string option \<times> json"

definition extract_id :: "json \<Rightarrow> py_error + id_pair" where
  "extract_id ids =
     err_bind (py_get ids ''imdb'') (\<lambda>imdb.
     if truthy imdb then err_bind (py_getitem ids ''imdb'') (\<lambda>v. Inr (Some ''imdb_id'', v))
     else err_bind (py_get ids ''tmdb'') (\<lambda>tmdb.
     if truthy tmdb then err_bind (py_getitem ids ''tmdb'') (\<lambda>v. Inr (Some ''tmdb_id'', v))
     else err_bind (py_get ids ''tvdb'') (\<lambda>tvdb.
     if truthy tvdb then err_bind (py_getitem ids ''tvdb'') (\<lambda>v. Inr (Some ''tvdb_id'', v))
     else err_bind (py_get ids ''trakt'') (\<lambda>trakt.
     if truthy trakt then err_bind (py_getitem ids ''trakt'') (\<lambda>v. Inr (Some ''trakt_id'', v))
     else Inr (None, JNull)))))"

section \<open>The record normalizer\<close>

text \<open>\<^verbatim>\<open>item.get(k) and item[k].get("ids")\<close>, used as a condition (lines 55, 57, 59, 61).\<close>

definition get_and_ids :: "json \<Rightarrow> string \<Rightarrow> py_error + bool" where
  "get_and_ids item k =
     err_bind (py_get item k) (\<lambda>sub.
     if \<not> truthy sub then Inr False
     else err_bind (py_getitem item k) (\<lambda>sub'.
          err_bind (py_get sub' ''ids'') (\<lambda>ids. Inr (truthy ids))))"

text \<open>\<^verbatim>\<open>k in item and item[k].get("ids")\<close>, used as a condition (lines 67, 73).\<close>

definition in_and_ids :: "json \<Rightarrow> string \<Rightarrow> py_error + bool" where
  "in_and_ids item k =
     err_bind (py_contains k item) (\<lambda>present.
     if \<not> present then Inr False
     else err_bind (py_getitem item k) (\<lambda>sub.
          err_bind (py_get sub ''ids'') (\<lambda>ids. Inr (truthy ids))))"

text \<open>\<^verbatim>\<open>extract_id(item[k]["ids"])\<close>.\<close>

definition extract_sub :: "json \<Rightarrow> string \<Rightarrow> py_error + id_pair" where
  "extract_sub item k =
     err_bind (py_getitem item k) (\<lambda>sub. err_bind (py_getitem sub ''ids'') extract_id)"

text \<open>The \<^verbatim>\<open>if/elif\<close> chain of the history branch, lines 55-62; without a match
  \<^verbatim>\<open>id_key, id_value\<close> keep their initial \<^verbatim>\<open>None, None\<close>.\<close>

definition history_id :: "json \<Rightarrow> py_error + id_pair" where
  "history_id item =
     err_bind (get_and_ids item ''episode'') (\<lambda>c.
     if c then extract_sub item ''episode''
     else err_bind (get_and_ids item ''movie'') (\<lambda>c.
     if c then extract_sub item ''movie''
     else err_bind (get_and_ids item ''show'') (\<lambda>c.
     if c then extract_sub item ''show''
     else err_bind (get_and_ids item ''season'') (\<lambda>c.
     if c then extract_sub item ''season''
     else Inr (None, JNull)))))"

text \<open>The four locals of the loop body after lines 48-76.\<close>

record fields =
  id_key :: "string option"
  id_value :: json
  item_type :: json
  watched_at :: json

definition select_fields :: "json \<Rightarrow> py_error + fields" where
  "select_fields item =
     err_bind (py_contains ''type'' item) (\<lambda>has_type.
     if has_type then
       err_bind (py_get item ''type'') (\<lambda>t.
       err_bind (history_id item) (\<lambda>(k, v).
       err_bind (py_get item ''watched_at'') (\<lambda>w.
       Inr \<lparr>id_key = k, id_value = v, item_type = t, watched_at = w\<rparr>)))
     else
       err_bind (in_and_ids item ''movie'') (\<lambda>c.
       if c then
         err_bind (extract_sub item ''movie'') (\<lambda>(k, v).
         err_bind (py_get item ''last_watched_at'') (\<lambda>w.
         Inr \<lparr>id_key = k, id_value = v, item_type = JStr ''movie'', watched_at = w\<rparr>))
       else
         err_bind (in_and_ids item ''show'') (\<lambda>c.
         if c then
           err_bind (extract_sub item ''show'') (\<lambda>(k, v).
           err_bind (py_get item ''last_watched_at'') (\<lambda>w.
           Inr \<lparr>id_key = k, id_value = v, item_type = JStr ''show'', watched_at = w\<rparr>))
         else
           Inr \<lparr>id_key = None, id_value = JNull, item_type = JNull, watched_at = JNull\<rparr>)))"

text \<open>Lines 84-100: the dict literal, then the optional fields. \<^verbatim>\<open>entry[k] = v\<close> is
  \<^const>\<open>AList.update\<close>: it replaces the value of a key already there and appends a new
  key at the end.\<close>

definition add_rating :: "json \<Rightarrow> dict \<Rightarrow> py_error + dict" where
  "add_rating item entry =
     err_bind (py_contains ''rating'' item) (\<lambda>present.
     err_bind (if present then err_bind (py_getitem item ''rating'') (\<lambda>r. Inr (truthy r))
               else Inr False) (\<lambda>c.
     if c then
       err_bind (py_getitem item ''rating'') (\<lambda>r.
       err_bind (py_contains ''rated_at'' item) (\<lambda>rated.
       if rated then
         err_bind (py_getitem item ''rated_at'') (\<lambda>ra.
         Inr (AList.update ''rated_at'' ra (AList.update ''rating'' r entry)))
       else Inr (AList.update ''rating'' r entry)))
     else Inr entry))"

definition add_watchlisted :: "json \<Rightarrow> dict \<Rightarrow> py_error + dict" where
  "add_watchlisted item entry =
     err_bind (py_contains ''watchlisted_at'' item) (\<lambda>present.
     if present then
       err_bind (py_getitem item ''watchlisted_at'') (\<lambda>wl.
       Inr (AList.update ''watchlisted_at'' wl entry))
     else Inr entry)"

definition build_entry :: "json \<Rightarrow> string \<Rightarrow> json \<Rightarrow> json \<Rightarrow> json \<Rightarrow> py_error + dict" where
  "build_entry item k v t w =
     err_bind
       (add_watchlisted item
         (if truthy w
          then AList.update ''watched_at'' w (AList.update ''type'' t (AList.update k v []))
          else AList.update ''type'' t (AList.update k v [])))
       (add_rating item)"

text \<open>One pass through the loop body, lines 48-102: the item is skipped
  (\<^verbatim>\<open>skipped_count += 1; continue\<close>) or one entry is appended to \<^verbatim>\<open>result\<close>.\<close>

datatype outcome = Skip | Emit dict

definition convert_item :: "json \<Rightarrow> py_error + outcome" where
  "convert_item item =
     err_bind (select_fields item) (\<lambda>f.
     case id_key f of
       None \<Rightarrow> Inr Skip
     | Some k \<Rightarrow>
         if k = [] \<or> \<not> truthy (id_value f) then Inr Skip
         else err_bind (build_entry item k (id_value f) (item_type f) (watched_at f))
                (\<lambda>entry. Inr (Emit entry)))"

text \<open>The \<^verbatim>\<open>for\<close> loop over \<^verbatim>\<open>data\<close>, threading \<^verbatim>\<open>result\<close> and \<^verbatim>\<open>skipped_count\<close>.\<close>

fun convert_loop :: "json list \<Rightarrow> dict list \<times> nat \<Rightarrow> py_error + dict list \<times> nat" where
  "convert_loop [] st = Inr st"
| "convert_loop (item # rest) (result, skipped_count) =
     (case convert_item item of
        Inl e \<Rightarrow> Inl e
      | Inr Skip \<Rightarrow> convert_loop rest (result, skipped_count + 1)
      | Inr (Emit entry) \<Rightarrow> convert_loop rest (result @ [entry], skipped_count))"

text \<open>\<^verbatim>\<open>convert_export_to_import(data)\<close>, lines 39-107. The source returns \<^verbatim>\<open>result\<close> and
  reports the final \<^verbatim>\<open>skipped_count\<close> on the console when it is positive; the model returns
  both.\<close>

definition convert_export_to_import :: "json list \<Rightarrow> py_error + dict list \<times> nat" where
  "convert_export_to_import data = convert_loop data ([], 0)"

section \<open>The shape detector\<close>

text \<open>\<^verbatim>\<open>detect_file_type(data)\<close>, lines 110-124, for a list \<^verbatim>\<open>data\<close> (the caller rejects
  everything else before the call).\<close>

definition detect_file_type :: "json list \<Rightarrow> py_error + string" where
  "detect_file_type data =
     (case data of
        [] \<Rightarrow> Inr ''unknown''
      | first_item # _ \<Rightarrow>
          err_bind (py_contains ''action'' first_item) (\<lambda>a.
          err_bind (if a then Inr True else py_contains ''type'' first_item) (\<lambda>h.
          if h then Inr ''history''
          else err_bind (py_contains ''movie'' first_item) (\<lambda>m.
          if m then Inr ''watched-movies''
          else err_bind (py_contains ''show'' first_item) (\<lambda>s.
          if s then Inr ''watched-shows''
          else Inr ''unknown'')))))"

section \<open>The specification's reading of the normalizer\<close>

text \<open>The definitions of this section follow the words of the specification; the theorems
  below compare them with the functions translated from the source.\<close>

text \<open>The priority order of the providers, and the identifier fields of an output record.\<close>

definition providers :: "string list" where
  "providers = [''imdb'', ''tmdb'', ''tvdb'', ''trakt'']"

definition id_fields :: "string list" where
  "id_fields = [''imdb_id'', ''tmdb_id'', ''tvdb_id'', ''trakt_id'']"

text \<open>A provider is usable in an identifier set when its value is present and truthy.\<close>

definition usable :: "dict \<Rightarrow> string \<Rightarrow> bool" where
  "usable d p = truthy (dict_get d p)"

text \<open>The best identifier: the first usable provider in priority order, as the pair
  (\<^verbatim>\<open><provider>_id\<close>, value); the absent pair when there is none.\<close>

definition spec_best_id :: "dict \<Rightarrow> id_pair" where
  "spec_best_id ids =
     (case List.find (usable ids) providers of
        None \<Rightarrow> (None, JNull)
      | Some p \<Rightarrow> (Some (p @ ''_id''), dict_get ids p))"

text \<open>The identifier set of the sub-record under key \<^verbatim>\<open>k\<close>, when the sub-record is present
  and its \<^verbatim>\<open>ids\<close> is a non-empty mapping.\<close>

definition ids_of :: "dict \<Rightarrow> string \<Rightarrow> dict option" where
  "ids_of d k =
     (case map_of d k of
        Some (JObj sub) \<Rightarrow>
          (case map_of sub ''ids'' of
             Some (JObj ids) \<Rightarrow> if ids = [] then None else Some ids
           | _ \<Rightarrow> None)
      | _ \<Rightarrow> None)"

text \<open>The identifier set of the first sub-record, in the given order, that has one.\<close>

fun first_ids :: "dict \<Rightarrow> string list \<Rightarrow> dict option" where
  "first_ids d [] = None"
| "first_ids d (k # ks) = (case ids_of d k of Some ids \<Rightarrow> Some ids | None \<Rightarrow> first_ids d ks)"

text \<open>The pass-through fields: \<^verbatim>\<open>watchlisted_at\<close> when the key is present, \<^verbatim>\<open>rating\<close> when
  present and truthy, \<^verbatim>\<open>rated_at\<close> when \<^verbatim>\<open>rating\<close> was copied and the key is present.\<close>

definition pass_through :: "dict \<Rightarrow> dict" where
  "pass_through d =
     (case map_of d ''watchlisted_at'' of None \<Rightarrow> [] | Some wl \<Rightarrow> [(''watchlisted_at'', wl)]) @
     (case map_of d ''rating'' of
        None \<Rightarrow> []
      | Some r \<Rightarrow>
          if truthy r
          then (''rating'', r) #
               (case map_of d ''rated_at'' of None \<Rightarrow> [] | Some ra \<Rightarrow> [(''rated_at'', ra)])
          else [])"

text \<open>The output record: identifier, type, \<^verbatim>\<open>watched_at\<close> when the timestamp source is
  truthy, then the pass-through fields.\<close>

definition spec_record :: "dict \<Rightarrow> string \<Rightarrow> json \<Rightarrow> json \<Rightarrow> json \<Rightarrow> dict" where
  "spec_record d k v t w =
     [(k, v), (''type'', t)] @ (if truthy w then [(''watched_at'', w)] else []) @ pass_through d"

text \<open>Skip or emit, from the identifier set chosen for the item.\<close>

definition spec_assemble :: "dict \<Rightarrow> dict \<Rightarrow> json \<Rightarrow> json \<Rightarrow> outcome" where
  "spec_assemble d ids t w =
     (case spec_best_id ids of
        (None, _) \<Rightarrow> Skip
      | (Some k, v) \<Rightarrow> Emit (spec_record d k v t w))"

text \<open>The per-item decision procedure, first match wins.\<close>

definition spec_normalize :: "dict \<Rightarrow> outcome" where
  "spec_normalize d =
     (case map_of d ''type'' of
        Some t \<Rightarrow>
          (case first_ids d [''episode'', ''movie'', ''show'', ''season''] of
             None \<Rightarrow> Skip
           | Some ids \<Rightarrow> spec_assemble d ids t (dict_get d ''watched_at''))
      | None \<Rightarrow>
          (case ids_of d ''movie'' of
             Some ids \<Rightarrow> spec_assemble d ids (JStr ''movie'') (dict_get d ''last_watched_at'')
           | None \<Rightarrow>
               (case ids_of d ''show'' of
                  Some ids \<Rightarrow> spec_assemble d ids (JStr ''show'') (dict_get d ''last_watched_at'')
                | None \<Rightarrow> Skip)))"

text \<open>The timestamp source the specification resolves for an item: \<^verbatim>\<open>watched_at\<close> for the
  history variant, \<^verbatim>\<open>last_watched_at\<close> for the others.\<close>

definition timestamp_source :: "dict \<Rightarrow> json" where
  "timestamp_source d =
     (if map_of d ''type'' = None then dict_get d ''last_watched_at'' else dict_get d ''watched_at'')"

text \<open>The shape of items in the data model: under each of the keys \<^verbatim>\<open>episode\<close>, \<^verbatim>\<open>movie\<close>,
  \<^verbatim>\<open>show\<close> and \<^verbatim>\<open>season\<close> that an item has there is a sub-record (a mapping), whose
  \<^verbatim>\<open>ids\<close>, when present, is a mapping or a false value.\<close>

definition ids_ok :: "json \<Rightarrow> bool" where
  "ids_ok v = (case v of JObj _ \<Rightarrow> True | _ \<Rightarrow> \<not> truthy v)"

definition sub_record_ok :: "json \<Rightarrow> bool" where
  "sub_record_ok v = (case v of JObj sub \<Rightarrow> ids_ok (dict_get sub ''ids'') | _ \<Rightarrow> False)"

definition key_ok :: "dict \<Rightarrow> string \<Rightarrow> bool" where
  "key_ok d k = (case map_of d k of None \<Rightarrow> True | Some v \<Rightarrow> sub_record_ok v)"

definition well_shaped :: "json \<Rightarrow> bool" where
  "well_shaped item =
     (case item of
        JObj d \<Rightarrow> key_ok d ''episode'' \<and> key_ok d ''movie'' \<and> key_ok d ''show'' \<and> key_ok d ''season''
      | _ \<Rightarrow> False)"

text \<open>What the history branch can read without raising. A value it reaches under
  \<^verbatim>\<open>episode\<close>, \<^verbatim>\<open>movie\<close>, \<^verbatim>\<open>show\<close> or \<^verbatim>\<open>season\<close> is passed unharmed when it is absent, falsy,
  or a sub-record; the branch reads the four keys in order and stops at the first that has
  a non-empty identifier set, so the values after that one are never read.\<close>

definition guarded_ok :: "dict \<Rightarrow> string \<Rightarrow> bool" where
  "guarded_ok d k =
     (case map_of d k of None \<Rightarrow> True | Some v \<Rightarrow> if truthy v then sub_record_ok v else True)"

fun history_shaped :: "dict \<Rightarrow> string list \<Rightarrow> bool" where
  "history_shaped d [] = True"
| "history_shaped d (k # ks) = (guarded_ok d k \<and> (ids_of d k \<noteq> None \<or> history_shaped d ks))"

section \<open>Example items\<close>

text \<open>A watched-shows item whose \<^verbatim>\<open>movie\<close> sub-record has no identifier set and whose
  \<^verbatim>\<open>show\<close> identifier set has a falsy \<^verbatim>\<open>imdb\<close>.\<close>

definition ex_watched_show :: dict where
  "ex_watched_show =
     [(''movie'', JObj [(''title'', JStr ''x'')]),
      (''show'', JObj [(''ids'', JObj [(''imdb'', JStr ''''), (''tvdb'', JInt 55)])]),
      (''last_watched_at'', JStr ''2019-05-05T00:00:00Z''),
      (''watched_at'', JStr ''2001-01-01T00:00:00Z'')]"

text \<open>A history item whose \<^verbatim>\<open>episode\<close> identifier set is non-empty but holds no usable
  identifier, while its \<^verbatim>\<open>movie\<close> identifier set holds one.\<close>

definition ex_history_shadowed :: dict where
  "ex_history_shadowed =
     [(''type'', JStr ''movie''),
      (''episode'', JObj [(''ids'', JObj [(''imdb'', JStr ''''), (''tmdb'', JInt 0)])]),
      (''movie'', JObj [(''ids'', JObj [(''imdb'', JStr ''tt123'')])]),
      (''watched_at'', JStr ''2020-01-01T00:00:00Z'')]"

text \<open>A history item of type \<^verbatim>\<open>episode\<close> whose first sub-record with identifiers is
  \<^verbatim>\<open>show\<close>.\<close>

definition ex_history_show :: dict where
  "ex_history_show =
     [(''type'', JStr ''episode''),
      (''show'', JObj [(''ids'', JObj [(''tvdb'', JInt 55)])]),
      (''season'', JObj [(''ids'', JObj [(''imdb'', JStr ''tt9'')])]),
      (''watched_at'', JStr ''2020-01-01T00:00:00Z''),
      (''last_watched_at'', JStr ''2001-01-01T00:00:00Z'')]"

text \<open>A history item with a falsy \<^verbatim>\<open>watched_at\<close>, a null \<^verbatim>\<open>watchlisted_at\<close>, a rating of
  zero and a \<^verbatim>\<open>rated_at\<close>.\<close>

definition ex_gating :: dict where
  "ex_gating =
     [(''type'', JStr ''episode''),
      (''episode'', JObj [(''ids'', JObj [(''tvdb'', JInt 55)])]),
      (''watched_at'', JStr ''''),
      (''watchlisted_at'', JNull),
      (''rating'', JInt 0),
      (''rated_at'', JStr ''2021-01-01T00:00:00Z'')]"

text \<open>A history item whose \<^verbatim>\<open>type\<close> is the empty string.\<close>

definition ex_empty_type :: json where
  "ex_empty_type =
     JObj [(''type'', JStr ''''), (''movie'', JObj [(''ids'', JObj [(''imdb'', JStr ''tt123'')])])]"

text \<open>Two items with an \<^verbatim>\<open>action\<close> key and no \<^verbatim>\<open>type\<close> key: a movie and an episode.\<close>

definition ex_action_movie :: dict where
  "ex_action_movie =
     [(''action'', JStr ''scrobble''),
      (''movie'', JObj [(''ids'', JObj [(''imdb'', JStr ''tt123'')])]),
      (''watched_at'', JStr ''2020-01-01T00:00:00Z'')]"

definition ex_action_episode :: dict where
  "ex_action_episode =
     [(''action'', JStr ''scrobble''),
      (''episode'', JObj [(''ids'', JObj [(''tvdb'', JInt 55)])]),
      (''watched_at'', JStr ''2020-01-01T00:00:00Z'')]"

text \<open>A history item with a null \<^verbatim>\<open>movie\<close> before its \<^verbatim>\<open>show\<close>, and one with a string under
  \<^verbatim>\<open>show\<close> after its \<^verbatim>\<open>episode\<close>.\<close>

definition ex_history_null :: dict where
  "ex_history_null =
     [(''type'', JStr ''movie''),
      (''movie'', JNull),
      (''show'', JObj [(''ids'', JObj [(''tvdb'', JInt 55)])]),
      (''watched_at'', JStr ''2020-01-01T00:00:00Z'')]"

definition ex_history_unread :: dict where
  "ex_history_unread =
     [(''type'', JStr ''episode''),
      (''episode'', JObj [(''ids'', JObj [(''tvdb'', JInt 55)])]),
      (''show'', JStr ''Breaking Bad'')]"

text \<open>Scenario 4 of the specification (a rated episode), and a watched movie that carries
  \<^verbatim>\<open>last_watched_at\<close>, \<^verbatim>\<open>watchlisted_at\<close> and a rating but no \<^verbatim>\<open>rated_at\<close>.\<close>

definition ex_scenario_4 :: dict where
  "ex_scenario_4 =
     [(''type'', JStr ''episode''),
      (''episode'', JObj [(''ids'', JObj [(''tvdb'', JInt 55)])]),
      (''rating'', JInt 8),
      (''rated_at'', JStr ''2021-01-01T00:00:00Z'')]"

definition ex_all_fields :: dict where
  "ex_all_fields =
     [(''movie'', JObj [(''ids'', JObj [(''imdb'', JStr ''tt123'')])]),
      (''last_watched_at'', JStr ''2019-05-05T00:00:00Z''),
      (''watchlisted_at'', JStr ''2018-03-03T00:00:00Z''),
      (''rating'', JInt 8)]"

section \<open>The source functions on dicts\<close>

lemma err_bind_simps [simp]:
  "err_bind (Inr x) f = f x" "err_bind (Inl e) f = Inl e"
  by (simp_all add: err_bind_def)

lemma err_bind_eq_Inr: "err_bind m f = Inr y \<longleftrightarrow> (\<exists>x. m = Inr x \<and> f x = Inr y)"
  by (cases m) simp_all

lemma extract_id_dict: "extract_id (JObj ids) = Inr (spec_best_id ids)"
  by (simp add: extract_id_def spec_best_id_def providers_def usable_def dict_get_def
      split: option.splits)

lemma spec_best_id_Some:
  "spec_best_id ids = (Some k, v) \<Longrightarrow> k \<in> set id_fields \<and> truthy v"
  by (auto simp add: spec_best_id_def providers_def usable_def id_fields_def
      split: option.splits if_splits)

lemma extract_id_Some:
  assumes "extract_id x = Inr (Some k, v)"
  shows "k \<in> set id_fields \<and> truthy v"
proof (cases x)
  case (JObj d)
  with assms have "spec_best_id d = (Some k, v)" by (simp add: extract_id_dict)
  then show ?thesis by (rule spec_best_id_Some)
qed (use assms in \<open>simp_all add: extract_id_def\<close>)

lemma build_entry_dict:
  "k \<in> set id_fields \<Longrightarrow> build_entry (JObj d) k v t w = Inr (spec_record d k v t w)"
  by (auto simp add: build_entry_def add_watchlisted_def add_rating_def spec_record_def
      pass_through_def id_fields_def split: option.splits)

lemma get_and_ids_dict:
  "key_ok d k \<Longrightarrow> get_and_ids (JObj d) k = Inr (ids_of d k \<noteq> None)"
  by (auto simp add: get_and_ids_def key_ok_def sub_record_ok_def ids_ok_def ids_of_def dict_get_def
      split: option.splits json.splits)

lemma in_and_ids_dict:
  "key_ok d k \<Longrightarrow> in_and_ids (JObj d) k = Inr (ids_of d k \<noteq> None)"
  by (auto simp add: in_and_ids_def key_ok_def sub_record_ok_def ids_ok_def ids_of_def dict_get_def
      split: option.splits json.splits)

lemma extract_sub_dict:
  "ids_of d k = Some ids \<Longrightarrow> extract_sub (JObj d) k = Inr (spec_best_id ids)"
  by (auto simp add: extract_sub_def ids_of_def extract_id_dict
      split: option.splits json.splits if_splits)

lemma extract_sub_Some:
  "extract_sub item k' = Inr (Some k, v) \<Longrightarrow> k \<in> set id_fields \<and> truthy v"
  by (auto simp add: extract_sub_def err_bind_eq_Inr dest: extract_id_Some)

lemma history_id_Some:
  "history_id item = Inr (Some k, v) \<Longrightarrow> k \<in> set id_fields \<and> truthy v"
  by (auto simp add: history_id_def err_bind_eq_Inr split: if_splits dest: extract_sub_Some)

lemma first_ids_history:
  assumes "key_ok d ''episode''" "key_ok d ''movie''" "key_ok d ''show''" "key_ok d ''season''"
  shows "history_id (JObj d) =
    Inr (case first_ids d [''episode'', ''movie'', ''show'', ''season''] of
           None \<Rightarrow> (None, JNull) | Some ids \<Rightarrow> spec_best_id ids)"
  using assms
  by (auto simp add: history_id_def get_and_ids_dict extract_sub_dict split: option.splits)

lemma spec_best_id_cases:
  obtains (absent) "spec_best_id ids = (None, JNull)"
  | (found) k v where "spec_best_id ids = (Some k, v)" "k \<in> set id_fields" "truthy v" "k \<noteq> []"
proof (cases "spec_best_id ids")
  case (Pair a b)
  show ?thesis
  proof (cases a)
    case None
    with Pair have "spec_best_id ids = (None, JNull)"
      by (auto simp add: spec_best_id_def split: option.splits)
    then show ?thesis by (rule absent)
  next
    case (Some k)
    with Pair have h: "spec_best_id ids = (Some k, b)" by simp
    from spec_best_id_Some [OF h] have "k \<in> set id_fields" "truthy b" by simp_all
    moreover from this have "k \<noteq> []" by (auto simp add: id_fields_def)
    ultimately show ?thesis using h by (intro found)
  qed
qed

lemma convert_item_refines:
  assumes "well_shaped (JObj d)"
  shows "convert_item (JObj d) = Inr (spec_normalize d)"
proof -
  from assms have ok: "key_ok d ''episode''" "key_ok d ''movie''" "key_ok d ''show''" "key_ok d ''season''"
    by (simp_all add: well_shaped_def)
  show ?thesis
  proof (cases "map_of d ''type''")
    case (Some t)
    show ?thesis
    proof (cases "first_ids d [''episode'', ''movie'', ''show'', ''season'']")
      case None
      with Some ok show ?thesis
        by (simp add: convert_item_def select_fields_def first_ids_history spec_normalize_def dict_get_def)
    next
      case (Some ids)
      with \<open>map_of d ''type'' = Some t\<close> ok show ?thesis
        by (cases ids rule: spec_best_id_cases)
           (simp_all add: convert_item_def select_fields_def first_ids_history spec_normalize_def
              dict_get_def spec_assemble_def build_entry_dict)
    qed
  next
    case None
    show ?thesis
    proof (cases "ids_of d ''movie''")
      case (Some ids)
      with None ok show ?thesis
        by (cases ids rule: spec_best_id_cases)
           (simp_all add: convert_item_def select_fields_def in_and_ids_dict extract_sub_dict
              spec_normalize_def spec_assemble_def build_entry_dict)
    next
      case nomovie: None
      show ?thesis
      proof (cases "ids_of d ''show''")
        case None
        with nomovie \<open>map_of d ''type'' = None\<close> ok show ?thesis
          by (simp add: convert_item_def select_fields_def in_and_ids_dict spec_normalize_def)
      next
        case (Some ids)
        with nomovie \<open>map_of d ''type'' = None\<close> ok show ?thesis
          by (cases ids rule: spec_best_id_cases)
             (simp_all add: convert_item_def select_fields_def in_and_ids_dict extract_sub_dict
                spec_normalize_def spec_assemble_def build_entry_dict)
      qed
    qed
  qed
qed

lemma select_fields_Some:
  assumes "select_fields item = Inr f" "id_key f = Some k"
  shows "\<exists>d. item = JObj d \<and> k \<in> set id_fields \<and> truthy (id_value f) \<and>
    (case map_of d ''type'' of
       Some t \<Rightarrow> item_type f = t \<and> watched_at f = dict_get d ''watched_at''
     | None \<Rightarrow> (item_type f = JStr ''movie'' \<or> item_type f = JStr ''show'') \<and>
         watched_at f = dict_get d ''last_watched_at'')"
proof (cases item)
  case (JObj d)
  with assms show ?thesis
    by (cases "map_of d ''type''")
       (auto simp add: select_fields_def err_bind_eq_Inr dict_get_def
          split: if_splits dest: extract_sub_Some history_id_Some)
next
  case (JStr s)
  with assms show ?thesis
    by (auto simp add: select_fields_def in_and_ids_def err_bind_eq_Inr split: if_splits)
next
  case (JArr xs)
  with assms show ?thesis
    by (auto simp add: select_fields_def in_and_ids_def err_bind_eq_Inr split: if_splits)
qed (use assms in \<open>simp_all add: select_fields_def\<close>)

lemma convert_item_Emit:
  assumes "convert_item item = Inr (Emit e)"
  obtains d k v t w where "item = JObj d" "k \<in> set id_fields" "truthy v"
    "e = spec_record d k v t w"
    "case map_of d ''type'' of
       Some t' \<Rightarrow> t = t' \<and> w = dict_get d ''watched_at''
     | None \<Rightarrow> (t = JStr ''movie'' \<or> t = JStr ''show'') \<and> w = dict_get d ''last_watched_at''"
proof -
  from assms obtain f k where f: "select_fields item = Inr f" "id_key f = Some k"
    and b: "build_entry item k (id_value f) (item_type f) (watched_at f) = Inr e"
    by (auto simp add: convert_item_def err_bind_eq_Inr split: option.splits if_splits)
  from select_fields_Some [OF f] obtain d where d: "item = JObj d" "k \<in> set id_fields"
    "truthy (id_value f)"
    "case map_of d ''type'' of
       Some t \<Rightarrow> item_type f = t \<and> watched_at f = dict_get d ''watched_at''
     | None \<Rightarrow> (item_type f = JStr ''movie'' \<or> item_type f = JStr ''show'') \<and>
         watched_at f = dict_get d ''last_watched_at''"
    by blast
  from b d have "e = spec_record d k (id_value f) (item_type f) (watched_at f)"
    by (simp add: build_entry_dict)
  with d show ?thesis by (intro that [of d k "id_value f" "item_type f" "watched_at f"])
qed

lemma convert_loop_acc:
  "convert_loop xs (r, s) =
     err_bind (convert_loop xs ([], 0)) (\<lambda>(r', s'). Inr (r @ r', s + s'))"
proof (induction xs arbitrary: r s)
  case Nil
  show ?case by simp
next
  case (Cons x xs)
  show ?case
  proof (cases "convert_item x")
    case (Inl e)
    then show ?thesis by simp
  next
    case (Inr out)
    show ?thesis
    proof (cases out)
      case Skip
      with Inr show ?thesis
        using Cons.IH [of r "s + 1"] Cons.IH [of "[]" 1]
        by (cases "convert_loop xs ([], 0)") auto
    next
      case (Emit e)
      with Inr show ?thesis
        using Cons.IH [of "r @ [e]" s] Cons.IH [of "[e]" 0]
        by (cases "convert_loop xs ([], 0)") auto
    qed
  qed
qed

lemma convert_loop_append:
  "convert_loop (xs @ ys) st = err_bind (convert_loop xs st) (convert_loop ys)"
proof (induction xs arbitrary: st)
  case Nil
  show ?case by simp
next
  case (Cons x xs)
  obtain r s where st: "st = (r, s)" by (cases st)
  show ?case unfolding st
    by (simp add: Cons.IH split: sum.splits outcome.splits)
qed

text \<open>Whenever the loop body does not raise, it does what the specification says.\<close>

lemma get_and_ids_False:
  "get_and_ids (JObj d) k = Inr False \<Longrightarrow> ids_of d k = None"
  by (auto simp add: get_and_ids_def ids_of_def dict_get_def err_bind_eq_Inr
      split: option.splits json.splits if_splits)

lemma in_and_ids_False:
  "in_and_ids (JObj d) k = Inr False \<Longrightarrow> ids_of d k = None"
  by (auto simp add: in_and_ids_def ids_of_def dict_get_def err_bind_eq_Inr
      split: option.splits json.splits if_splits)

lemma extract_id_Inr: "extract_id x = Inr p \<Longrightarrow> \<exists>ids. x = JObj ids \<and> p = spec_best_id ids"
  by (cases x) (simp_all add: extract_id_dict, simp_all add: extract_id_def)

lemma extract_sub_Inr:
  assumes "extract_sub (JObj d) k = Inr p"
    and "get_and_ids (JObj d) k = Inr True \<or> in_and_ids (JObj d) k = Inr True"
  shows "\<exists>ids. ids_of d k = Some ids \<and> p = spec_best_id ids"
proof -
  from assms(1) obtain sub x where sub: "py_getitem (JObj d) k = Inr sub"
    and x: "py_getitem sub ''ids'' = Inr x" and p: "extract_id x = Inr p"
    by (auto simp add: extract_sub_def err_bind_eq_Inr)
  from extract_id_Inr [OF p] obtain ids where ids: "x = JObj ids" "p = spec_best_id ids"
    by blast
  from x obtain s where s: "sub = JObj s" by (cases sub) simp_all
  from sub s have 1: "map_of d k = Some (JObj s)" by (simp split: option.splits)
  from x s ids have 2: "map_of s ''ids'' = Some (JObj ids)" by (simp split: option.splits)
  from assms(2) 1 2 have "ids \<noteq> []"
    by (auto simp add: get_and_ids_def in_and_ids_def dict_get_def split: if_splits)
  with 1 2 ids show ?thesis by (simp add: ids_of_def)
qed

lemma history_step:
  assumes "err_bind (get_and_ids (JObj d) k) (\<lambda>c. if c then extract_sub (JObj d) k else rest) = Inr p"
  shows "(\<exists>ids. ids_of d k = Some ids \<and> p = spec_best_id ids) \<or> (ids_of d k = None \<and> rest = Inr p)"
proof -
  from assms obtain c where c: "get_and_ids (JObj d) k = Inr c"
    and r: "(if c then extract_sub (JObj d) k else rest) = Inr p"
    by (auto simp add: err_bind_eq_Inr)
  show ?thesis
  proof (cases c)
    case True
    with c r extract_sub_Inr [of d k p] show ?thesis by simp
  next
    case False
    with c r get_and_ids_False [of d k] show ?thesis by simp
  qed
qed

lemma history_id_Inr:
  assumes "history_id (JObj d) = Inr p"
  shows "p = (case first_ids d [''episode'', ''movie'', ''show'', ''season''] of
           None \<Rightarrow> (None, JNull) | Some ids \<Rightarrow> spec_best_id ids)"
  using assms unfolding history_id_def
  by (auto dest!: history_step)

lemma other_step:
  assumes "err_bind (in_and_ids (JObj d) k) (\<lambda>c. if c then err_bind (extract_sub (JObj d) k) f else rest) = Inr r"
  shows "(\<exists>ids. ids_of d k = Some ids \<and> f (spec_best_id ids) = Inr r) \<or> (ids_of d k = None \<and> rest = Inr r)"
proof -
  from assms obtain c where c: "in_and_ids (JObj d) k = Inr c"
    and r: "(if c then err_bind (extract_sub (JObj d) k) f else rest) = Inr r"
    by (auto simp add: err_bind_eq_Inr)
  show ?thesis
  proof (cases c)
    case True
    with r obtain p where p: "extract_sub (JObj d) k = Inr p" "f p = Inr r"
      by (auto simp add: err_bind_eq_Inr)
    with c True extract_sub_Inr [of d k p] show ?thesis by auto
  next
    case False
    with c r in_and_ids_False [of d k] show ?thesis by simp
  qed
qed

lemma assemble_fields:
  "(case id_key f of None \<Rightarrow> Inr Skip
    | Some k \<Rightarrow> if k = [] \<or> \<not> truthy (id_value f) then Inr Skip
        else err_bind (build_entry (JObj d) k (id_value f) (item_type f) (watched_at f))
               (\<lambda>entry. Inr (Emit entry))) = Inr out
   \<Longrightarrow> (id_key f, id_value f) = spec_best_id ids
   \<Longrightarrow> out = spec_assemble d ids (item_type f) (watched_at f)"
  by (cases ids rule: spec_best_id_cases) (auto simp add: spec_assemble_def build_entry_dict)

lemma convert_item_partial:
  assumes "convert_item (JObj d) = Inr out"
  shows "out = spec_normalize d"
proof -
  from assms obtain f where f: "select_fields (JObj d) = Inr f"
    and out: "(case id_key f of None \<Rightarrow> Inr Skip
    | Some k \<Rightarrow> if k = [] \<or> \<not> truthy (id_value f) then Inr Skip
        else err_bind (build_entry (JObj d) k (id_value f) (item_type f) (watched_at f))
               (\<lambda>entry. Inr (Emit entry))) = Inr out"
    by (auto simp add: convert_item_def err_bind_eq_Inr)
  show ?thesis
  proof (cases "map_of d ''type''")
    case (Some t)
    with f obtain p where p: "history_id (JObj d) = Inr p"
      and f': "f = \<lparr>id_key = fst p, id_value = snd p, item_type = t, watched_at = dict_get d ''watched_at''\<rparr>"
      by (auto simp add: select_fields_def err_bind_eq_Inr dict_get_def)
    note h = history_id_Inr [OF p]
    show ?thesis
    proof (cases "first_ids d [''episode'', ''movie'', ''show'', ''season'']")
      case None
      with h f' out Some show ?thesis by (simp add: spec_normalize_def)
    next
      case (Some ids)
      with h f' have "(id_key f, id_value f) = spec_best_id ids" by simp
      from assemble_fields [OF out this] f' Some \<open>map_of d ''type'' = Some t\<close>
      show ?thesis by (simp add: spec_normalize_def)
    qed
  next
    case None
    let ?mk = "\<lambda>t p. Inr \<lparr>id_key = fst p, id_value = snd p, item_type = JStr t,
      watched_at = dict_get d ''last_watched_at''\<rparr> :: py_error + fields"
    let ?show = "err_bind (in_and_ids (JObj d) ''show'') (\<lambda>c.
         if c then err_bind (extract_sub (JObj d) ''show'') (?mk ''show'')
         else Inr \<lparr>id_key = None, id_value = JNull, item_type = JNull, watched_at = JNull\<rparr>)"
    from None f have "err_bind (in_and_ids (JObj d) ''movie'') (\<lambda>c.
       if c then err_bind (extract_sub (JObj d) ''movie'') (?mk ''movie'') else ?show) = Inr f"
      by (simp add: select_fields_def case_prod_unfold cong: if_cong)
    from other_step [OF this] show ?thesis
    proof (elim disjE exE conjE)
      fix ids
      assume a: "ids_of d ''movie'' = Some ids" and b: "?mk ''movie'' (spec_best_id ids) = Inr f"
      from b have "(id_key f, id_value f) = spec_best_id ids" "item_type f = JStr ''movie''"
        "watched_at f = dict_get d ''last_watched_at''"
        by auto
      with assemble_fields [OF out this(1)] a None show ?thesis by (simp add: spec_normalize_def)
    next
      assume a: "ids_of d ''movie'' = None" and b: "?show = Inr f"
      from other_step [OF b] show ?thesis
      proof (elim disjE exE conjE)
        fix ids
        assume c: "ids_of d ''show'' = Some ids" and e: "?mk ''show'' (spec_best_id ids) = Inr f"
        from e have "(id_key f, id_value f) = spec_best_id ids" "item_type f = JStr ''show''"
          "watched_at f = dict_get d ''last_watched_at''"
          by auto
        with assemble_fields [OF out this(1)] a c None show ?thesis by (simp add: spec_normalize_def)
      next
        assume c: "ids_of d ''show'' = None"
          and e: "Inr \<lparr>id_key = None, id_value = JNull, item_type = JNull, watched_at = JNull\<rparr> = Inr f"
        from e have "id_key f = None" by auto
        with out a c None show ?thesis by (simp add: spec_normalize_def)
      qed
    qed
  qed
qed

section \<open>The loop\<close>

lemma convert_loop_mem:
  "convert_loop xs (r0, s0) = Inr (res, sk) \<Longrightarrow> r \<in> set res \<Longrightarrow>
     r \<in> set r0 \<or> (\<exists>item \<in> set xs. convert_item item = Inr (Emit r))"
proof (induction xs arbitrary: r0 s0)
  case Nil
  then show ?case by simp
next
  case (Cons x xs)
  show ?case
  proof (cases "convert_item x")
    case (Inl e)
    with Cons.prems show ?thesis by simp
  next
    case (Inr out)
    show ?thesis
    proof (cases out)
      case Skip
      with Inr Cons.prems Cons.IH [of r0 "s0 + 1"] show ?thesis by auto
    next
      case (Emit e)
      with Inr Cons.prems Cons.IH [of "r0 @ [e]" s0] show ?thesis by auto
    qed
  qed
qed

lemma convert_loop_length:
  "convert_loop xs (r0, s0) = Inr (res, sk) \<Longrightarrow>
     length res + sk = length r0 + s0 + length xs"
proof (induction xs arbitrary: r0 s0)
  case Nil
  then show ?case by simp
next
  case (Cons x xs)
  show ?case
  proof (cases "convert_item x")
    case (Inl e)
    with Cons.prems show ?thesis by simp
  next
    case (Inr out)
    show ?thesis
    proof (cases out)
      case Skip
      with Inr Cons.prems Cons.IH [of r0 "s0 + 1"] show ?thesis by auto
    next
      case (Emit e)
      with Inr Cons.prems Cons.IH [of "r0 @ [e]" s0] show ?thesis by auto
    qed
  qed
qed

lemma convert_loop_total:
  "list_all well_shaped xs \<Longrightarrow> \<exists>res sk. convert_loop xs st = Inr (res, sk)"
proof (induction xs arbitrary: st)
  case Nil
  then show ?case by (cases st) simp
next
  case (Cons x xs)
  obtain r s where st: "st = (r, s)" by (cases st)
  from Cons.prems have x: "well_shaped x" and xs: "list_all well_shaped xs" by simp_all
  from x obtain d where d: "x = JObj d" by (cases x) (simp_all add: well_shaped_def)
  with x have c: "convert_item x = Inr (spec_normalize d)" by (simp add: convert_item_refines)
  show ?case
    using Cons.IH [OF xs, of "(r, s + 1)"] Cons.IH [OF xs]
    by (cases "spec_normalize d") (auto simp add: st c)
qed

section \<open>Fields of an output record\<close>

lemma id_fields_cases:
  assumes "k \<in> set id_fields"
  obtains "k = ''imdb_id''" | "k = ''tmdb_id''" | "k = ''tvdb_id''" | "k = ''trakt_id''"
  using assms by (auto simp add: id_fields_def)

lemma pass_through_keys:
  "filter (\<lambda>k'. k' \<in> set id_fields) (map fst (pass_through d)) = []"
  by (simp add: pass_through_def id_fields_def split: option.splits)

lemma spec_record_keys:
  "k \<in> set id_fields \<Longrightarrow> filter (\<lambda>k'. k' \<in> set id_fields) (map fst (spec_record d k v t w)) = [k]"
  by (simp add: spec_record_def pass_through_keys) (simp add: id_fields_def)

lemma pass_through_lookup:
  "map_of (pass_through d) ''watchlisted_at'' = map_of d ''watchlisted_at''"
  "map_of (pass_through d) ''rating'' =
      (case map_of d ''rating'' of None \<Rightarrow> None | Some r \<Rightarrow> if truthy r then Some r else None)"
  "map_of (pass_through d) ''rated_at'' =
      (case map_of d ''rating'' of None \<Rightarrow> None
       | Some r \<Rightarrow> if truthy r then map_of d ''rated_at'' else None)"
  "map_of (pass_through d) ''type'' = None"
  "map_of (pass_through d) ''watched_at'' = None"
  by (simp_all add: pass_through_def split: option.splits)

lemma spec_record_lookup:
  assumes "k \<in> set id_fields"
  shows "map_of (spec_record d k v t w) k = Some v"
    and "map_of (spec_record d k v t w) ''type'' = Some t"
    and "map_of (spec_record d k v t w) ''watched_at'' = (if truthy w then Some w else None)"
    and "map_of (spec_record d k v t w) ''watchlisted_at'' = map_of d ''watchlisted_at''"
    and "map_of (spec_record d k v t w) ''rating'' =
      (case map_of d ''rating'' of None \<Rightarrow> None | Some r \<Rightarrow> if truthy r then Some r else None)"
    and "map_of (spec_record d k v t w) ''rated_at'' =
      (case map_of d ''rating'' of None \<Rightarrow> None
       | Some r \<Rightarrow> if truthy r then map_of d ''rated_at'' else None)"
  using assms
  by (cases rule: id_fields_cases; simp add: spec_record_def pass_through_lookup)+

section \<open>Items without a type key\<close>

lemma ids_of_key_ok: "ids_of d k = Some ids \<Longrightarrow> key_ok d k"
  by (auto simp add: ids_of_def key_ok_def sub_record_ok_def ids_ok_def dict_get_def
      split: option.splits json.splits if_splits)

lemma convert_item_movie:
  assumes "map_of d ''type'' = None" "ids_of d ''movie'' = Some ids"
  shows "convert_item (JObj d) =
    Inr (spec_assemble d ids (JStr ''movie'') (dict_get d ''last_watched_at''))"
  using assms ids_of_key_ok [OF assms(2)]
  by (cases ids rule: spec_best_id_cases)
     (simp_all add: convert_item_def select_fields_def in_and_ids_dict extract_sub_dict
        spec_assemble_def build_entry_dict)

lemma convert_item_show:
  assumes "map_of d ''type'' = None" "ids_of d ''movie'' = None" "key_ok d ''movie''"
    "ids_of d ''show'' = Some ids"
  shows "convert_item (JObj d) =
    Inr (spec_assemble d ids (JStr ''show'') (dict_get d ''last_watched_at''))"
  using assms ids_of_key_ok [OF assms(4)]
  by (cases ids rule: spec_best_id_cases)
     (simp_all add: convert_item_def select_fields_def in_and_ids_dict extract_sub_dict
        spec_assemble_def build_entry_dict)

section \<open>Emitted records and their items\<close>

lemma convert_emitted_from_item:
  assumes "convert_export_to_import data = Inr (res, sk)" "r \<in> set res"
  shows "\<exists>item \<in> set data. convert_item item = Inr (Emit r)"
  using convert_loop_mem [of data "[]" 0 res sk r] assms
  by (simp add: convert_export_to_import_def)

lemma pass_through_fields:
  "distinct (map fst (pass_through d)) \<and>
   set (map fst (pass_through d)) \<subseteq> {''watchlisted_at'', ''rating'', ''rated_at''}"
  by (auto simp add: pass_through_def split: option.splits)

lemma spec_record_distinct:
  assumes "k \<in> set id_fields"
  shows "distinct (map fst (spec_record d k v t w))"
proof -
  from pass_through_fields [of d]
  have d: "distinct (map fst (pass_through d))"
    and s: "set (map fst (pass_through d)) \<subseteq> {''watchlisted_at'', ''rating'', ''rated_at''}"
    by blast+
  from s have "''type'' \<notin> set (map fst (pass_through d))"
    "''watched_at'' \<notin> set (map fst (pass_through d))"
    "''imdb_id'' \<notin> set (map fst (pass_through d))"
    "''tmdb_id'' \<notin> set (map fst (pass_through d))"
    "''tvdb_id'' \<notin> set (map fst (pass_through d))"
    "''trakt_id'' \<notin> set (map fst (pass_through d))"
    by auto
  note n = this
  from assms show ?thesis
    using d n by (cases rule: id_fields_cases) (simp_all add: spec_record_def)
qed

text \<open>The loop body looks the item up at ten keys only; \<^verbatim>\<open>action\<close> is not one of them.\<close>

lemma convert_item_lookups:
  assumes "\<And>k. k \<noteq> ''action'' \<Longrightarrow> map_of d k = map_of d' k"
  shows "convert_item (JObj d) = convert_item (JObj d')"
proof -
  have eqs: "map_of d ''type'' = map_of d' ''type''"
    "map_of d ''episode'' = map_of d' ''episode''"
    "map_of d ''movie'' = map_of d' ''movie''"
    "map_of d ''show'' = map_of d' ''show''"
    "map_of d ''season'' = map_of d' ''season''"
    "map_of d ''watched_at'' = map_of d' ''watched_at''"
    "map_of d ''last_watched_at'' = map_of d' ''last_watched_at''"
    "map_of d ''watchlisted_at'' = map_of d' ''watchlisted_at''"
    "map_of d ''rating'' = map_of d' ''rating''"
    "map_of d ''rated_at'' = map_of d' ''rated_at''"
    by (simp_all add: assms)
  show ?thesis
    unfolding convert_item_def select_fields_def history_id_def get_and_ids_def in_and_ids_def
      extract_sub_def build_entry_def add_watchlisted_def add_rating_def dict_get_def
      py_get.simps py_contains.simps py_getitem.simps
    by (simp only: eqs)
qed

lemma map_of_without_action:
  "k \<noteq> ''action'' \<Longrightarrow> map_of d k = map_of (filter (\<lambda>p. fst p \<noteq> ''action'') d) k"
  by (induction d) auto

section \<open>The history branch, exactly\<close>

lemma get_and_ids_guarded:
  "guarded_ok d k \<Longrightarrow> get_and_ids (JObj d) k = Inr (ids_of d k \<noteq> None)"
  by (auto simp add: get_and_ids_def guarded_ok_def sub_record_ok_def ids_ok_def ids_of_def dict_get_def
      split: option.splits json.splits if_splits)

lemma extract_id_not_dict:
  assumes "\<And>ids. x \<noteq> JObj ids"
  shows "extract_id x = Inl AttributeError"
proof (cases x)
  case (JObj ids)
  with assms show ?thesis by blast
qed (simp_all add: extract_id_def)

lemma get_and_ids_unguarded:
  assumes "\<not> guarded_ok d k"
  shows "get_and_ids (JObj d) k = Inl AttributeError \<or>
         (get_and_ids (JObj d) k = Inr True \<and> extract_sub (JObj d) k = Inl AttributeError)"
proof -
  from assms obtain v where v: "map_of d k = Some v" "truthy v" "\<not> sub_record_ok v"
    by (auto simp add: guarded_ok_def split: option.splits if_splits)
  show ?thesis
  proof (cases v)
    case (JObj s)
    with v have i: "\<not> ids_ok (dict_get s ''ids'')" by (simp add: sub_record_ok_def)
    then obtain x where x: "map_of s ''ids'' = Some x" "truthy x"
      by (auto simp add: ids_ok_def dict_get_def split: option.splits json.splits)
    from i x have "\<And>ids. x \<noteq> JObj ids" by (auto simp add: ids_ok_def dict_get_def)
    then have "extract_id x = Inl AttributeError" by (rule extract_id_not_dict)
    with v x JObj show ?thesis
      by (simp add: get_and_ids_def extract_sub_def dict_get_def)
  qed (use v in \<open>simp_all add: get_and_ids_def dict_get_def\<close>)
qed

lemma history_id_shaped:
  assumes "history_shaped d [''episode'', ''movie'', ''show'', ''season'']"
  shows "history_id (JObj d) =
    Inr (case first_ids d [''episode'', ''movie'', ''show'', ''season''] of
           None \<Rightarrow> (None, JNull) | Some ids \<Rightarrow> spec_best_id ids)"
  using assms
  by (auto simp add: history_id_def get_and_ids_guarded extract_sub_dict split: option.splits)

lemma chain_raise:
  assumes "\<not> guarded_ok d k"
  shows "err_bind (get_and_ids (JObj d) k) (\<lambda>c. if c then extract_sub (JObj d) k else rest)
    = Inl AttributeError"
  using get_and_ids_unguarded [OF assms] by auto

lemma chain_skip:
  assumes "guarded_ok d k" "ids_of d k = None"
  shows "err_bind (get_and_ids (JObj d) k) (\<lambda>c. if c then extract_sub (JObj d) k else rest) = rest"
  using assms by (simp add: get_and_ids_guarded)

lemma history_id_unshaped:
  assumes "\<not> history_shaped d [''episode'', ''movie'', ''show'', ''season'']"
  shows "history_id (JObj d) = Inl AttributeError"
proof (cases "guarded_ok d ''episode''")
  case False
  then show ?thesis unfolding history_id_def by (rule chain_raise)
next
  case e: True
  with assms have e': "ids_of d ''episode'' = None"
    and r1: "\<not> history_shaped d [''movie'', ''show'', ''season'']" by auto
  show ?thesis
  proof (cases "guarded_ok d ''movie''")
    case False
    then show ?thesis unfolding history_id_def chain_skip [OF e e'] by (rule chain_raise)
  next
    case m: True
    with r1 have m': "ids_of d ''movie'' = None"
      and r2: "\<not> history_shaped d [''show'', ''season'']" by auto
    show ?thesis
    proof (cases "guarded_ok d ''show''")
      case False
      then show ?thesis
        unfolding history_id_def chain_skip [OF e e'] chain_skip [OF m m'] by (rule chain_raise)
    next
      case s: True
      with r2 have s': "ids_of d ''show'' = None"
        and r3: "\<not> guarded_ok d ''season''" by auto
      from r3 show ?thesis
        unfolding history_id_def chain_skip [OF e e'] chain_skip [OF m m'] chain_skip [OF s s']
        by (rule chain_raise)
    qed
  qed
qed

lemma convert_item_history_shaped:
  assumes "map_of d ''type'' = Some t"
    and "history_shaped d [''episode'', ''movie'', ''show'', ''season'']"
  shows "convert_item (JObj d) =
    Inr (case first_ids d [''episode'', ''movie'', ''show'', ''season''] of
           None \<Rightarrow> Skip
         | Some ids \<Rightarrow> spec_assemble d ids t (dict_get d ''watched_at''))"
proof (cases "first_ids d [''episode'', ''movie'', ''show'', ''season'']")
  case None
  with assms show ?thesis
    by (simp add: convert_item_def select_fields_def history_id_shaped)
next
  case (Some ids)
  with assms show ?thesis
    by (cases ids rule: spec_best_id_cases)
       (simp_all add: convert_item_def select_fields_def history_id_shaped
          spec_assemble_def build_entry_dict dict_get_def)
qed

lemma convert_item_history_unshaped:
  assumes "map_of d ''type'' = Some t"
    and "\<not> history_shaped d [''episode'', ''movie'', ''show'', ''season'']"
  shows "convert_item (JObj d) = Inl AttributeError"
  using assms(1) history_id_unshaped [OF assms(2)]
  by (simp add: convert_item_def select_fields_def)

text \<open>Once an identifier is selected, the record is assembled without raising.\<close>

lemma convert_item_selected:
  assumes "select_fields (JObj d) = Inr f" "id_key f = Some k" "k \<noteq> []" "truthy (id_value f)"
  shows "convert_item (JObj d) =
    Inr (Emit (spec_record d k (id_value f) (item_type f) (watched_at f)))"
proof -
  from select_fields_Some [OF assms(1,2)] have "k \<in> set id_fields" by blast
  with assms show ?thesis by (simp add: convert_item_def build_entry_dict)
qed

section \<open>Concrete runs\<close>

lemmas convert_defs = convert_export_to_import_def convert_item_def select_fields_def history_id_def
  get_and_ids_def in_and_ids_def extract_sub_def extract_id_def build_entry_def add_watchlisted_def
  add_rating_def dict_get_def

text \<open>Scenario 1 of the specification: a history item for a movie.\<close>

lemma scenario_1:
  "convert_export_to_import
     [JObj [(''type'', JStr ''movie''),
            (''movie'', JObj [(''ids'', JObj [(''imdb'', JStr ''tt123''), (''tmdb'', JInt 456)])]),
            (''watched_at'', JStr ''2020-01-01T00:00:00Z'')]]
   = Inr ([[(''imdb_id'', JStr ''tt123''), (''type'', JStr ''movie''),
            (''watched_at'', JStr ''2020-01-01T00:00:00Z'')]], 0)"
  by (simp add: convert_defs)

text \<open>Scenario 3 of the specification: a show with an empty identifier set.\<close>

lemma scenario_3:
  "convert_export_to_import [JObj [(''show'', JObj [(''ids'', JObj [])])]] = Inr ([], 1)"
  by (simp add: convert_defs)

text \<open>Scenario 2 of the specification: a watched-movies item.\<close>

lemma scenario_2:
  "convert_export_to_import
     [JObj [(''movie'', JObj [(''ids'', JObj [(''tmdb'', JInt 789)])]),
            (''last_watched_at'', JStr ''2019-05-05T00:00:00Z'')]]
   = Inr ([[(''tmdb_id'', JInt 789), (''type'', JStr ''movie''),
            (''watched_at'', JStr ''2019-05-05T00:00:00Z'')]], 0)"
  by (simp add: convert_defs)

text \<open>Three items of the data model's shape: two records and one skip.\<close>

lemma counts_run:
  "convert_export_to_import [JObj ex_history_show, JObj ex_history_shadowed, JObj ex_watched_show]
     = Inr ([[(''tvdb_id'', JInt 55), (''type'', JStr ''episode''),
              (''watched_at'', JStr ''2020-01-01T00:00:00Z'')],
             [(''tvdb_id'', JInt 55), (''type'', JStr ''show''),
              (''watched_at'', JStr ''2019-05-05T00:00:00Z'')]], 1)"
  by (simp add: ex_history_show_def ex_history_shadowed_def ex_watched_show_def convert_defs)

text \<open>A falsy \<^verbatim>\<open>watched_at\<close> and a rating of zero are dropped, and \<^verbatim>\<open>rated_at\<close> with the
  rating; a null \<^verbatim>\<open>watchlisted_at\<close> is copied.\<close>

lemma gating_run:
  "convert_item (JObj ex_gating)
     = Inr (Emit [(''tvdb_id'', JInt 55), (''type'', JStr ''episode''), (''watchlisted_at'', JNull)])"
  by (simp add: ex_gating_def convert_defs)

lemmas shape_defs = guarded_ok_def key_ok_def sub_record_ok_def ids_ok_def ids_of_def dict_get_def

lemma history_runs:
  "spec_assemble ex_history_shadowed [(''imdb'', JStr ''''), (''tmdb'', JInt 0)]
      (JStr ''movie'') (dict_get ex_history_shadowed ''watched_at'') = Skip"
  "spec_assemble ex_history_null [(''tvdb'', JInt 55)]
      (JStr ''movie'') (dict_get ex_history_null ''watched_at'')
    = Emit [(''tvdb_id'', JInt 55), (''type'', JStr ''movie''),
            (''watched_at'', JStr ''2020-01-01T00:00:00Z'')]"
  "spec_assemble ex_history_unread [(''tvdb'', JInt 55)]
      (JStr ''episode'') (dict_get ex_history_unread ''watched_at'')
    = Emit [(''tvdb_id'', JInt 55), (''type'', JStr ''episode'')]"
  by (simp_all add: ex_history_shadowed_def ex_history_null_def ex_history_unread_def
      spec_assemble_def spec_best_id_def providers_def usable_def spec_record_def
      pass_through_def dict_get_def)

text \<open>What lines 48-76 select on Scenario 4 and on the watched movie.\<close>

lemma selected_runs:
  "select_fields (JObj ex_scenario_4) =
     Inr \<lparr>id_key = Some ''tvdb_id'', id_value = JInt 55, item_type = JStr ''episode'',
          watched_at = JNull\<rparr>"
  "select_fields (JObj ex_all_fields) =
     Inr \<lparr>id_key = Some ''imdb_id'', id_value = JStr ''tt123'', item_type = JStr ''movie'',
          watched_at = JStr ''2019-05-05T00:00:00Z''\<rparr>"
  by (simp_all add: ex_scenario_4_def ex_all_fields_def select_fields_def history_id_def
      get_and_ids_def in_and_ids_def extract_sub_def extract_id_def dict_get_def)

section \<open>The claims\<close>

text \<open>
  C1. On every identifier set (a dict, whatever its values and their order),
  \<^verbatim>\<open>extract_id\<close> returns without raising, and what it returns is the pair
  (\<^verbatim>\<open><provider>_id\<close>, value) of the first provider in the order imdb, tmdb, tvdb, trakt whose
  value is truthy, or the absent pair \<^verbatim>\<open>(None, None)\<close> when there is none; the empty set
  gives the absent pair.
\<close>

theorem extract_id_priority:
  "extract_id (JObj ids) = Inr (spec_best_id ids) \<and> extract_id (JObj []) = Inr (None, JNull)"
  by (simp add: extract_id_dict) (simp add: spec_best_id_def providers_def usable_def dict_get_def)

text \<open>The priority does not depend on the order of the keys; a falsy \<^verbatim>\<open>imdb\<close> is passed
  over; a set of falsy values only gives the absent pair.\<close>

theorem extract_id_priority_witness:
  "extract_id (JObj [(''trakt'', JInt 7), (''tmdb'', JInt 456), (''imdb'', JStr ''tt123'')])
     = Inr (Some ''imdb_id'', JStr ''tt123'') \<and>
   extract_id (JObj [(''trakt'', JInt 7), (''tmdb'', JInt 456), (''imdb'', JStr '''')])
     = Inr (Some ''tmdb_id'', JInt 456) \<and>
   extract_id (JObj [(''imdb'', JNull), (''tmdb'', JInt 0), (''tvdb'', JStr ''''), (''trakt'', JBool False)])
     = Inr (None, JNull)"
  using extract_id_priority [of "[(''trakt'', JInt 7), (''tmdb'', JInt 456), (''imdb'', JStr ''tt123'')]"]
    extract_id_priority [of "[(''trakt'', JInt 7), (''tmdb'', JInt 456), (''imdb'', JStr '''')]"]
    extract_id_priority [of "[(''imdb'', JNull), (''tmdb'', JInt 0), (''tvdb'', JStr ''''), (''trakt'', JBool False)]"]
  by (simp add: spec_best_id_def providers_def usable_def dict_get_def)

text \<open>
  C7. \<^verbatim>\<open>detect_file_type\<close> returns \<^verbatim>\<open>"unknown"\<close> on the empty sequence; on a sequence
  whose first element is a mapping it returns \<^verbatim>\<open>"history"\<close> if that element has an
  \<^verbatim>\<open>action\<close> or a \<^verbatim>\<open>type\<close> key, else \<^verbatim>\<open>"watched-movies"\<close> if it has a \<^verbatim>\<open>movie\<close> key, else
  \<^verbatim>\<open>"watched-shows"\<close> if it has a \<^verbatim>\<open>show\<close> key, else \<^verbatim>\<open>"unknown"\<close>; and two non-empty
  sequences with the same first element get the same answer, whatever that element is.
\<close>

theorem detect_file_type_first:
  "detect_file_type [] = Inr ''unknown'' \<and>
   detect_file_type (JObj d # rest) =
     Inr (if ''action'' \<in> fst ` set d \<or> ''type'' \<in> fst ` set d then ''history''
          else if ''movie'' \<in> fst ` set d then ''watched-movies''
          else if ''show'' \<in> fst ` set d then ''watched-shows''
          else ''unknown'') \<and>
   detect_file_type (x # xs) = detect_file_type (x # ys)"
  by (simp add: detect_file_type_def map_of_eq_None_iff)

theorem detect_file_type_first_witness:
  "detect_file_type [JObj [(''movie'', JObj []), (''show'', JObj [])], JObj [(''type'', JStr ''movie'')]]
     = Inr ''watched-movies'' \<and>
   detect_file_type [JObj [(''movie'', JObj []), (''show'', JObj [])], JObj [(''type'', JStr ''movie'')]]
     = detect_file_type [JObj [(''movie'', JObj []), (''show'', JObj [])]]"
  using detect_file_type_first [of "[(''movie'', JObj []), (''show'', JObj [])]" "[JObj [(''type'', JStr ''movie'')]]"
      "JObj [(''movie'', JObj []), (''show'', JObj [])]" "[JObj [(''type'', JStr ''movie'')]]" "[]"]
  by (simp add: detect_file_type_def)

text \<open>
  C8. The normalizer is a fold with no state shared between the elements: the records of
  \<^verbatim>\<open>xs + ys\<close> are the records of \<^verbatim>\<open>xs\<close> followed by the records of \<^verbatim>\<open>ys\<close>, and the skip
  counts add; an exception raised on \<^verbatim>\<open>xs\<close> or on \<^verbatim>\<open>ys\<close> is raised on \<^verbatim>\<open>xs + ys\<close>. On
  a single element the result is what the loop body does with it, so the output is in
  input order, without the skipped elements. The shape detector is not an argument of
  the function.
\<close>

theorem convert_append:
  "(convert_export_to_import xs = Inr (r1, s1) \<longrightarrow> convert_export_to_import ys = Inr (r2, s2) \<longrightarrow>
      convert_export_to_import (xs @ ys) = Inr (r1 @ r2, s1 + s2)) \<and>
   convert_export_to_import (xs @ ys) =
     err_bind (convert_export_to_import xs) (\<lambda>(r1, s1).
     err_bind (convert_export_to_import ys) (\<lambda>(r2, s2). Inr (r1 @ r2, s1 + s2))) \<and>
   convert_export_to_import [x] =
     (case convert_item x of
        Inl e \<Rightarrow> Inl e
      | Inr Skip \<Rightarrow> Inr ([], 1)
      | Inr (Emit entry) \<Rightarrow> Inr ([entry], 0)) \<and>
   convert_export_to_import [] = Inr ([], 0)"
proof -
  have app: "convert_export_to_import (xs @ ys) =
     err_bind (convert_export_to_import xs) (\<lambda>(r1, s1).
     err_bind (convert_export_to_import ys) (\<lambda>(r2, s2). Inr (r1 @ r2, s1 + s2)))"
  proof (cases "convert_loop xs ([], 0)")
    case (Inl e)
    then show ?thesis by (simp add: convert_export_to_import_def convert_loop_append)
  next
    case (Inr st)
    obtain r s where "st = (r, s)" by (cases st)
    with Inr show ?thesis
      using convert_loop_acc [of ys r s]
      by (simp add: convert_export_to_import_def convert_loop_append)
  qed
  have one: "convert_export_to_import [x] =
     (case convert_item x of
        Inl e \<Rightarrow> Inl e
      | Inr Skip \<Rightarrow> Inr ([], 1)
      | Inr (Emit entry) \<Rightarrow> Inr ([entry], 0))"
    by (simp add: convert_export_to_import_def split: sum.splits outcome.splits)
  have nil: "convert_export_to_import [] = Inr ([], 0)"
    by (simp add: convert_export_to_import_def)
  from app have "convert_export_to_import xs = Inr (r1, s1) \<longrightarrow> convert_export_to_import ys = Inr (r2, s2) \<longrightarrow>
      convert_export_to_import (xs @ ys) = Inr (r1 @ r2, s1 + s2)"
    by simp
  with app one nil show ?thesis by blast
qed

theorem convert_append_witness:
  "convert_export_to_import
     ([JObj [(''type'', JStr ''movie''),
             (''movie'', JObj [(''ids'', JObj [(''imdb'', JStr ''tt123''), (''tmdb'', JInt 456)])]),
             (''watched_at'', JStr ''2020-01-01T00:00:00Z'')]] @
      [JObj [(''show'', JObj [(''ids'', JObj [])])]])
   = Inr ([[(''imdb_id'', JStr ''tt123''), (''type'', JStr ''movie''),
            (''watched_at'', JStr ''2020-01-01T00:00:00Z'')]] @ [], 0 + 1)"
  using convert_append
    [of "[JObj [(''type'', JStr ''movie''),
             (''movie'', JObj [(''ids'', JObj [(''imdb'', JStr ''tt123''), (''tmdb'', JInt 456)])]),
             (''watched_at'', JStr ''2020-01-01T00:00:00Z'')]]"
        "[[(''imdb_id'', JStr ''tt123''), (''type'', JStr ''movie''),
            (''watched_at'', JStr ''2020-01-01T00:00:00Z'')]]" 0
        "[JObj [(''show'', JObj [(''ids'', JObj [])])]]" "[]" 1]
    scenario_1 scenario_3
  by blast

text \<open>
  C6 (as amended). An item without a \<^verbatim>\<open>type\<close> key: if its \<^verbatim>\<open>movie\<close> sub-record has a
  non-empty identifier set, the identifier selector is applied to that set, the type is
  \<^verbatim>\<open>"movie"\<close> and the timestamp is read from \<^verbatim>\<open>last_watched_at\<close>. Otherwise, when the
  \<^verbatim>\<open>movie\<close> key is absent or its value is a mapping with an \<^verbatim>\<open>ids\<close> that is a mapping or
  falsy, and the \<^verbatim>\<open>show\<close> sub-record has a non-empty identifier set, the same holds with
  type \<^verbatim>\<open>"show"\<close>; and whatever is under \<^verbatim>\<open>movie\<close>, if the loop body returns at all on such
  an item, that is what it returns. Scenario 2 of the specification is the last conjunct.
\<close>

theorem watched_item:
  assumes "map_of d ''type'' = None"
  shows "(ids_of d ''movie'' = Some ids \<longrightarrow>
            convert_item (JObj d) =
              Inr (spec_assemble d ids (JStr ''movie'') (dict_get d ''last_watched_at''))) \<and>
         (ids_of d ''movie'' = None \<longrightarrow> key_ok d ''movie'' \<longrightarrow> ids_of d ''show'' = Some ids \<longrightarrow>
            convert_item (JObj d) =
              Inr (spec_assemble d ids (JStr ''show'') (dict_get d ''last_watched_at''))) \<and>
         (ids_of d ''movie'' = None \<longrightarrow> ids_of d ''show'' = Some ids \<longrightarrow>
            convert_item (JObj d) = Inr out \<longrightarrow>
            out = spec_assemble d ids (JStr ''show'') (dict_get d ''last_watched_at'')) \<and>
         convert_export_to_import
           [JObj [(''movie'', JObj [(''ids'', JObj [(''tmdb'', JInt 789)])]),
                  (''last_watched_at'', JStr ''2019-05-05T00:00:00Z'')]]
         = Inr ([[(''tmdb_id'', JInt 789), (''type'', JStr ''movie''),
                  (''watched_at'', JStr ''2019-05-05T00:00:00Z'')]], 0)"
proof (intro conjI impI)
  assume "ids_of d ''movie'' = Some ids"
  with assms show "convert_item (JObj d) =
      Inr (spec_assemble d ids (JStr ''movie'') (dict_get d ''last_watched_at''))"
    by (rule convert_item_movie)
next
  assume "ids_of d ''movie'' = None" "key_ok d ''movie''" "ids_of d ''show'' = Some ids"
  with assms show "convert_item (JObj d) =
      Inr (spec_assemble d ids (JStr ''show'') (dict_get d ''last_watched_at''))"
    by (rule convert_item_show)
next
  assume "ids_of d ''movie'' = None" "ids_of d ''show'' = Some ids" "convert_item (JObj d) = Inr out"
  with assms convert_item_partial [of d out]
  show "out = spec_assemble d ids (JStr ''show'') (dict_get d ''last_watched_at'')"
    by (simp add: spec_normalize_def)
next
  show "convert_export_to_import
           [JObj [(''movie'', JObj [(''ids'', JObj [(''tmdb'', JInt 789)])]),
                  (''last_watched_at'', JStr ''2019-05-05T00:00:00Z'')]]
         = Inr ([[(''tmdb_id'', JInt 789), (''type'', JStr ''movie''),
                  (''watched_at'', JStr ''2019-05-05T00:00:00Z'')]], 0)"
    by (rule scenario_2)
qed

text \<open>The claim as stated fails on an item whose \<^verbatim>\<open>movie\<close> value is a string and whose
  \<^verbatim>\<open>show\<close> sub-record has a non-empty identifier set: the show rule is never reached, the
  loop body raises \<^verbatim>\<open>AttributeError\<close> at \<^verbatim>\<open>item["movie"].get("ids")\<close>.\<close>

theorem watched_item_counterexample:
  "map_of [(''movie'', JStr ''Inception''),
           (''show'', JObj [(''ids'', JObj [(''tvdb'', JInt 55)])])] ''type'' = None \<and>
   ids_of [(''movie'', JStr ''Inception''),
           (''show'', JObj [(''ids'', JObj [(''tvdb'', JInt 55)])])] ''movie'' = None \<and>
   ids_of [(''movie'', JStr ''Inception''),
           (''show'', JObj [(''ids'', JObj [(''tvdb'', JInt 55)])])] ''show''
     = Some [(''tvdb'', JInt 55)] \<and>
   convert_item (JObj [(''movie'', JStr ''Inception''),
                       (''show'', JObj [(''ids'', JObj [(''tvdb'', JInt 55)])])])
     = Inl AttributeError"
  by (simp add: ids_of_def convert_defs)

theorem watched_item_witness:
  "map_of ex_watched_show ''type'' = None \<and>
   ids_of ex_watched_show ''movie'' = None \<and>
   key_ok ex_watched_show ''movie'' \<and>
   ids_of ex_watched_show ''show'' = Some [(''imdb'', JStr ''''), (''tvdb'', JInt 55)] \<and>
   convert_item (JObj ex_watched_show)
     = Inr (Emit [(''tvdb_id'', JInt 55), (''type'', JStr ''show''),
                  (''watched_at'', JStr ''2019-05-05T00:00:00Z'')])"
proof -
  let ?ids = "[(''imdb'', JStr ''''), (''tvdb'', JInt 55)]"
  have t: "map_of ex_watched_show ''type'' = None"
    by (simp add: ex_watched_show_def)
  have m: "ids_of ex_watched_show ''movie'' = None"
    by (simp add: ex_watched_show_def ids_of_def)
  have k: "key_ok ex_watched_show ''movie''"
    by (simp add: ex_watched_show_def key_ok_def sub_record_ok_def ids_ok_def dict_get_def)
  have s: "ids_of ex_watched_show ''show'' = Some ?ids"
    by (simp add: ex_watched_show_def ids_of_def)
  have a: "spec_assemble ex_watched_show ?ids (JStr ''show'') (dict_get ex_watched_show ''last_watched_at'')
    = Emit [(''tvdb_id'', JInt 55), (''type'', JStr ''show''),
                  (''watched_at'', JStr ''2019-05-05T00:00:00Z'')]"
    by (simp add: ex_watched_show_def spec_assemble_def spec_best_id_def providers_def usable_def
        spec_record_def pass_through_def dict_get_def)
  from watched_item [OF t, of ?ids] m k s
  have "convert_item (JObj ex_watched_show) =
      Inr (spec_assemble ex_watched_show ?ids (JStr ''show'') (dict_get ex_watched_show ''last_watched_at''))"
    by blast
  with t m k s a show ?thesis by simp
qed

text \<open>
  C3 (as amended). An item with a \<^verbatim>\<open>type\<close> key: the normalizer reads \<^verbatim>\<open>episode\<close>, \<^verbatim>\<open>movie\<close>,
  \<^verbatim>\<open>show\<close>, \<^verbatim>\<open>season\<close> in this order and stops at the first that is present with a non-empty
  \<^verbatim>\<open>ids\<close> mapping. When every value it reads on the way is absent, falsy, or a mapping whose
  \<^verbatim>\<open>ids\<close> is a mapping or falsy, the identifier selector is applied to the identifier set of
  that first sub-record only: the item is skipped when that set has no usable identifier,
  whatever the later sub-records hold, and when no sub-record has a non-empty identifier
  set; the type of the record is the item's own \<^verbatim>\<open>type\<close> value and the timestamp is read
  from \<^verbatim>\<open>watched_at\<close>. When a value it reads is none of these, it raises
  \<^verbatim>\<open>AttributeError\<close>. So on any item with a \<^verbatim>\<open>type\<close> key, what the loop body returns, if it
  returns, is what the claim says.
\<close>

theorem history_item:
  assumes "map_of d ''type'' = Some t"
  shows "(history_shaped d [''episode'', ''movie'', ''show'', ''season''] \<longrightarrow>
            convert_item (JObj d) =
              Inr (case first_ids d [''episode'', ''movie'', ''show'', ''season''] of
                     None \<Rightarrow> Skip
                   | Some ids \<Rightarrow> spec_assemble d ids t (dict_get d ''watched_at''))) \<and>
         (\<not> history_shaped d [''episode'', ''movie'', ''show'', ''season''] \<longrightarrow>
            convert_item (JObj d) = Inl AttributeError) \<and>
         (convert_item (JObj d) = Inr out \<longrightarrow>
            out = (case first_ids d [''episode'', ''movie'', ''show'', ''season''] of
                     None \<Rightarrow> Skip
                   | Some ids \<Rightarrow> spec_assemble d ids t (dict_get d ''watched_at'')))"
  using convert_item_history_shaped [OF assms] convert_item_history_unshaped [OF assms]
    convert_item_partial [of d out] assms
  by (simp add: spec_normalize_def)

text \<open>The claim as stated fails on a history item whose \<^verbatim>\<open>episode\<close> value is a string: the
  first sub-record with a non-empty \<^verbatim>\<open>ids\<close> mapping is \<^verbatim>\<open>movie\<close>, but the loop body raises
  \<^verbatim>\<open>AttributeError\<close> at \<^verbatim>\<open>item["episode"].get("ids")\<close> before it gets there.\<close>

theorem history_item_counterexample:
  "map_of [(''type'', JStr ''movie''), (''episode'', JStr ''Pilot''),
           (''movie'', JObj [(''ids'', JObj [(''imdb'', JStr ''tt123'')])])] ''type''
     = Some (JStr ''movie'') \<and>
   first_ids [(''type'', JStr ''movie''), (''episode'', JStr ''Pilot''),
              (''movie'', JObj [(''ids'', JObj [(''imdb'', JStr ''tt123'')])])]
       [''episode'', ''movie'', ''show'', ''season'']
     = Some [(''imdb'', JStr ''tt123'')] \<and>
   convert_item (JObj [(''type'', JStr ''movie''), (''episode'', JStr ''Pilot''),
                       (''movie'', JObj [(''ids'', JObj [(''imdb'', JStr ''tt123'')])])])
     = Inl AttributeError"
  by (simp add: ids_of_def convert_defs)

text \<open>A first identifier set without a usable identifier shadows a later one; a null
  \<^verbatim>\<open>movie\<close> is passed over and the record keeps the item's type; a string under \<^verbatim>\<open>show\<close> does
  no harm after an \<^verbatim>\<open>episode\<close> with identifiers.\<close>

theorem history_item_witness:
  "map_of ex_history_shadowed ''type'' = Some (JStr ''movie'') \<and>
   history_shaped ex_history_shadowed [''episode'', ''movie'', ''show'', ''season''] \<and>
   first_ids ex_history_shadowed [''episode'', ''movie'', ''show'', ''season'']
     = Some [(''imdb'', JStr ''''), (''tmdb'', JInt 0)] \<and>
   convert_item (JObj ex_history_shadowed) = Inr Skip \<and>
   map_of ex_history_null ''type'' = Some (JStr ''movie'') \<and>
   history_shaped ex_history_null [''episode'', ''movie'', ''show'', ''season''] \<and>
   convert_item (JObj ex_history_null)
     = Inr (Emit [(''tvdb_id'', JInt 55), (''type'', JStr ''movie''),
                  (''watched_at'', JStr ''2020-01-01T00:00:00Z'')]) \<and>
   map_of ex_history_unread ''type'' = Some (JStr ''episode'') \<and>
   history_shaped ex_history_unread [''episode'', ''movie'', ''show'', ''season''] \<and>
   convert_item (JObj ex_history_unread)
     = Inr (Emit [(''tvdb_id'', JInt 55), (''type'', JStr ''episode'')])"
proof -
  let ?ks = "[''episode'', ''movie'', ''show'', ''season'']"
  have t1: "map_of ex_history_shadowed ''type'' = Some (JStr ''movie'')"
    and h1: "history_shaped ex_history_shadowed ?ks"
    and f1: "first_ids ex_history_shadowed ?ks = Some [(''imdb'', JStr ''''), (''tmdb'', JInt 0)]"
    by (simp_all add: ex_history_shadowed_def shape_defs)
  have t2: "map_of ex_history_null ''type'' = Some (JStr ''movie'')"
    and h2: "history_shaped ex_history_null ?ks"
    and f2: "first_ids ex_history_null ?ks = Some [(''tvdb'', JInt 55)]"
    by (simp_all add: ex_history_null_def shape_defs)
  have t3: "map_of ex_history_unread ''type'' = Some (JStr ''episode'')"
    and h3: "history_shaped ex_history_unread ?ks"
    and f3: "first_ids ex_history_unread ?ks = Some [(''tvdb'', JInt 55)]"
    by (simp_all add: ex_history_unread_def shape_defs)
  from history_item [OF t1] h1
  have "convert_item (JObj ex_history_shadowed) =
      Inr (case first_ids ex_history_shadowed ?ks of
             None \<Rightarrow> Skip
           | Some ids \<Rightarrow> spec_assemble ex_history_shadowed ids (JStr ''movie'')
               (dict_get ex_history_shadowed ''watched_at''))"
    by blast
  then have r1: "convert_item (JObj ex_history_shadowed) = Inr Skip"
    unfolding f1 by (simp add: history_runs)
  from history_item [OF t2] h2
  have "convert_item (JObj ex_history_null) =
      Inr (case first_ids ex_history_null ?ks of
             None \<Rightarrow> Skip
           | Some ids \<Rightarrow> spec_assemble ex_history_null ids (JStr ''movie'')
               (dict_get ex_history_null ''watched_at''))"
    by blast
  then have r2: "convert_item (JObj ex_history_null)
     = Inr (Emit [(''tvdb_id'', JInt 55), (''type'', JStr ''movie''),
                  (''watched_at'', JStr ''2020-01-01T00:00:00Z'')])"
    unfolding f2 by (simp add: history_runs)
  from history_item [OF t3] h3
  have "convert_item (JObj ex_history_unread) =
      Inr (case first_ids ex_history_unread ?ks of
             None \<Rightarrow> Skip
           | Some ids \<Rightarrow> spec_assemble ex_history_unread ids (JStr ''episode'')
               (dict_get ex_history_unread ''watched_at''))"
    by blast
  then have r3: "convert_item (JObj ex_history_unread)
     = Inr (Emit [(''tvdb_id'', JInt 55), (''type'', JStr ''episode'')])"
    unfolding f3 by (simp add: history_runs)
  from t1 h1 f1 r1 t2 h2 r2 t3 h3 r3 show ?thesis by blast
qed

text \<open>
  C4. For every item that produces an output record: \<^verbatim>\<open>watched_at\<close> is in the record iff the
  value of the item's timestamp source is truthy (and is that value); \<^verbatim>\<open>watchlisted_at\<close> is
  in the record iff the key is on the item, with the item's value, null included;
  \<^verbatim>\<open>rating\<close> is in the record iff the key is on the item and its value is truthy; and
  \<^verbatim>\<open>rated_at\<close> is in the record iff \<^verbatim>\<open>rating\<close> is and the key \<^verbatim>\<open>rated_at\<close> is on the item.
  And the record is produced: once lines 48-76 have selected a truthy identifier for a
  mapping, the loop body emits the record with exactly these fields, whatever the optional
  fields of the item are.
\<close>

theorem optional_fields:
  "(convert_item item = Inr (Emit entry) \<longrightarrow>
      (\<exists>d. item = JObj d \<and>
         map_of entry ''watched_at'' =
           (if truthy (timestamp_source d) then Some (timestamp_source d) else None) \<and>
         map_of entry ''watchlisted_at'' = map_of d ''watchlisted_at'' \<and>
         map_of entry ''rating'' =
           (case map_of d ''rating'' of None \<Rightarrow> None | Some r \<Rightarrow> if truthy r then Some r else None) \<and>
         map_of entry ''rated_at'' =
           (if map_of entry ''rating'' = None then None else map_of d ''rated_at''))) \<and>
   (select_fields (JObj d') = Inr f \<longrightarrow> id_key f = Some k \<longrightarrow> k \<noteq> [] \<longrightarrow> truthy (id_value f) \<longrightarrow>
      convert_item (JObj d') =
        Inr (Emit ([(k, id_value f), (''type'', item_type f)] @
                   (if truthy (watched_at f) then [(''watched_at'', watched_at f)] else []) @
                   (case map_of d' ''watchlisted_at'' of
                      None \<Rightarrow> [] | Some wl \<Rightarrow> [(''watchlisted_at'', wl)]) @
                   (case map_of d' ''rating'' of
                      None \<Rightarrow> []
                    | Some r \<Rightarrow>
                        if truthy r
                        then (''rating'', r) #
                             (case map_of d' ''rated_at'' of
                                None \<Rightarrow> [] | Some ra \<Rightarrow> [(''rated_at'', ra)])
                        else []))))"
proof (intro conjI impI)
  assume "convert_item item = Inr (Emit entry)"
  then obtain d k v t w where d: "item = JObj d" and k: "k \<in> set id_fields"
    and e: "entry = spec_record d k v t w"
    and w: "case map_of d ''type'' of
       Some t' \<Rightarrow> t = t' \<and> w = dict_get d ''watched_at''
     | None \<Rightarrow> (t = JStr ''movie'' \<or> t = JStr ''show'') \<and> w = dict_get d ''last_watched_at''"
    by (rule convert_item_Emit)
  from w have "w = timestamp_source d"
    by (simp add: timestamp_source_def split: option.splits)
  with d e show "\<exists>d. item = JObj d \<and>
         map_of entry ''watched_at'' =
           (if truthy (timestamp_source d) then Some (timestamp_source d) else None) \<and>
         map_of entry ''watchlisted_at'' = map_of d ''watchlisted_at'' \<and>
         map_of entry ''rating'' =
           (case map_of d ''rating'' of None \<Rightarrow> None | Some r \<Rightarrow> if truthy r then Some r else None) \<and>
         map_of entry ''rated_at'' =
           (if map_of entry ''rating'' = None then None else map_of d ''rated_at'')"
    by (simp add: spec_record_lookup [OF k] split: option.splits)
next
  assume "select_fields (JObj d') = Inr f" "id_key f = Some k" "k \<noteq> []" "truthy (id_value f)"
  from convert_item_selected [OF this]
  show "convert_item (JObj d') =
        Inr (Emit ([(k, id_value f), (''type'', item_type f)] @
                   (if truthy (watched_at f) then [(''watched_at'', watched_at f)] else []) @
                   (case map_of d' ''watchlisted_at'' of
                      None \<Rightarrow> [] | Some wl \<Rightarrow> [(''watchlisted_at'', wl)]) @
                   (case map_of d' ''rating'' of
                      None \<Rightarrow> []
                    | Some r \<Rightarrow>
                        if truthy r
                        then (''rating'', r) #
                             (case map_of d' ''rated_at'' of
                                None \<Rightarrow> [] | Some ra \<Rightarrow> [(''rated_at'', ra)])
                        else [])))"
    by (simp add: spec_record_def pass_through_def)
qed

text \<open>Scenario 4 copies the rating and \<^verbatim>\<open>rated_at\<close>; the watched movie copies a truthy
  timestamp, \<^verbatim>\<open>watchlisted_at\<close> and the rating, with no \<^verbatim>\<open>rated_at\<close> to copy; the third item
  drops a falsy \<^verbatim>\<open>watched_at\<close> and a rating of zero and copies a null \<^verbatim>\<open>watchlisted_at\<close>.\<close>

theorem optional_fields_witness:
  "select_fields (JObj ex_scenario_4) =
     Inr \<lparr>id_key = Some ''tvdb_id'', id_value = JInt 55, item_type = JStr ''episode'',
          watched_at = JNull\<rparr> \<and>
   convert_item (JObj ex_scenario_4)
     = Inr (Emit [(''tvdb_id'', JInt 55), (''type'', JStr ''episode''), (''rating'', JInt 8),
                  (''rated_at'', JStr ''2021-01-01T00:00:00Z'')]) \<and>
   map_of ex_scenario_4 ''rating'' = Some (JInt 8) \<and>
   map_of [(''tvdb_id'', JInt 55), (''type'', JStr ''episode''), (''rating'', JInt 8),
           (''rated_at'', JStr ''2021-01-01T00:00:00Z'')] ''rating'' = Some (JInt 8) \<and>
   map_of [(''tvdb_id'', JInt 55), (''type'', JStr ''episode''), (''rating'', JInt 8),
           (''rated_at'', JStr ''2021-01-01T00:00:00Z'')] ''rated_at''
     = map_of ex_scenario_4 ''rated_at'' \<and>
   select_fields (JObj ex_all_fields) =
     Inr \<lparr>id_key = Some ''imdb_id'', id_value = JStr ''tt123'', item_type = JStr ''movie'',
          watched_at = JStr ''2019-05-05T00:00:00Z''\<rparr> \<and>
   convert_item (JObj ex_all_fields)
     = Inr (Emit [(''imdb_id'', JStr ''tt123''), (''type'', JStr ''movie''),
                  (''watched_at'', JStr ''2019-05-05T00:00:00Z''),
                  (''watchlisted_at'', JStr ''2018-03-03T00:00:00Z''), (''rating'', JInt 8)]) \<and>
   convert_item (JObj ex_gating)
     = Inr (Emit [(''tvdb_id'', JInt 55), (''type'', JStr ''episode''), (''watchlisted_at'', JNull)]) \<and>
   map_of ex_gating ''watchlisted_at'' = Some JNull \<and>
   map_of ex_gating ''rating'' = Some (JInt 0) \<and>
   map_of [(''tvdb_id'', JInt 55), (''type'', JStr ''episode''), (''watchlisted_at'', JNull)]
     ''watchlisted_at'' = map_of ex_gating ''watchlisted_at'' \<and>
   map_of [(''tvdb_id'', JInt 55), (''type'', JStr ''episode''), (''watchlisted_at'', JNull)]
     ''rating'' = None"
proof -
  let ?f4 = "\<lparr>id_key = Some ''tvdb_id'', id_value = JInt 55, item_type = JStr ''episode'',
          watched_at = JNull\<rparr>"
  let ?fa = "\<lparr>id_key = Some ''imdb_id'', id_value = JStr ''tt123'', item_type = JStr ''movie'',
          watched_at = JStr ''2019-05-05T00:00:00Z''\<rparr>"
  let ?e4 = "[(''tvdb_id'', JInt 55), (''type'', JStr ''episode''), (''rating'', JInt 8),
              (''rated_at'', JStr ''2021-01-01T00:00:00Z'')]"
  let ?eg = "[(''tvdb_id'', JInt 55), (''type'', JStr ''episode''), (''watchlisted_at'', JNull)]"
  from optional_fields [where d' = ex_scenario_4 and f = ?f4 and k = "''tvdb_id''"] selected_runs(1)
  have r4: "convert_item (JObj ex_scenario_4) = Inr (Emit ?e4)"
    by (simp add: ex_scenario_4_def)
  from optional_fields [where d' = ex_all_fields and f = ?fa and k = "''imdb_id''"] selected_runs(2)
  have ra: "convert_item (JObj ex_all_fields)
     = Inr (Emit [(''imdb_id'', JStr ''tt123''), (''type'', JStr ''movie''),
                  (''watched_at'', JStr ''2019-05-05T00:00:00Z''),
                  (''watchlisted_at'', JStr ''2018-03-03T00:00:00Z''), (''rating'', JInt 8)])"
    by (simp add: ex_all_fields_def)
  from optional_fields [where item = "JObj ex_scenario_4" and entry = ?e4] r4
  have g4: "map_of ex_scenario_4 ''rating'' = Some (JInt 8)"
    "map_of ?e4 ''rating'' = Some (JInt 8)"
    "map_of ?e4 ''rated_at'' = map_of ex_scenario_4 ''rated_at''"
    by (simp_all add: ex_scenario_4_def)
  from optional_fields [where item = "JObj ex_gating" and entry = ?eg] gating_run
  have gg: "map_of ex_gating ''watchlisted_at'' = Some JNull"
    "map_of ex_gating ''rating'' = Some (JInt 0)"
    "map_of ?eg ''watchlisted_at'' = map_of ex_gating ''watchlisted_at''"
    "map_of ?eg ''rating'' = None"
    by (simp_all add: ex_gating_def)
  from selected_runs r4 ra gating_run g4 gg show ?thesis by blast
qed

text \<open>
  C5 (as amended). An item on which the loop body raises gives neither outcome, and a
  sequence that holds one gives no result at all. For every sequence on which
  \<^verbatim>\<open>convert_export_to_import\<close> returns, the number of records plus the skip count is the
  length of the input; it returns on every sequence of items of the data model's shape
  (mappings whose \<^verbatim>\<open>episode\<close>, \<^verbatim>\<open>movie\<close>, \<^verbatim>\<open>show\<close> and \<^verbatim>\<open>season\<close> values, where present, are
  mappings with an \<^verbatim>\<open>ids\<close> that is a mapping or falsy). One pass of the loop that returns
  either appends one record and leaves the skip count, or leaves the records and adds one
  to the skip count; on an item of that shape it returns.
\<close>

theorem convert_counts:
  "(convert_export_to_import data = Inr (res, sk) \<longrightarrow> length res + sk = length data) \<and>
   (list_all well_shaped data \<longrightarrow>
      (\<exists>res sk. convert_export_to_import data = Inr (res, sk) \<and> length res + sk = length data)) \<and>
   (convert_loop [item] (result, skipped_count) = Inr st \<longrightarrow>
      (\<exists>entry. st = (result @ [entry], skipped_count)) \<or> st = (result, skipped_count + 1)) \<and>
   (well_shaped item \<longrightarrow>
      (\<exists>entry. convert_loop [item] (result, skipped_count) = Inr (result @ [entry], skipped_count)) \<or>
      convert_loop [item] (result, skipped_count) = Inr (result, skipped_count + 1))"
proof (intro conjI impI)
  assume "convert_export_to_import data = Inr (res, sk)"
  then show "length res + sk = length data"
    using convert_loop_length [of data "[]" 0 res sk] by (simp add: convert_export_to_import_def)
next
  assume "list_all well_shaped data"
  from convert_loop_total [OF this, of "([], 0)"] obtain res sk
    where r: "convert_loop data ([], 0) = Inr (res, sk)" by blast
  with convert_loop_length [OF r]
  show "\<exists>res sk. convert_export_to_import data = Inr (res, sk) \<and> length res + sk = length data"
    by (simp add: convert_export_to_import_def)
next
  assume "convert_loop [item] (result, skipped_count) = Inr st"
  then show "(\<exists>entry. st = (result @ [entry], skipped_count)) \<or> st = (result, skipped_count + 1)"
    by (auto split: sum.splits outcome.splits)
next
  assume "well_shaped item"
  from convert_loop_total [of "[item]" "(result, skipped_count)"] this
  obtain res sk where "convert_loop [item] (result, skipped_count) = Inr (res, sk)"
    by auto
  then show "(\<exists>entry. convert_loop [item] (result, skipped_count) = Inr (result @ [entry], skipped_count)) \<or>
      convert_loop [item] (result, skipped_count) = Inr (result, skipped_count + 1)"
    by (auto split: sum.splits outcome.splits)
qed

text \<open>The claim as stated fails on an item whose \<^verbatim>\<open>movie\<close> value is a string: the loop body
  raises \<^verbatim>\<open>AttributeError\<close> at \<^verbatim>\<open>item["movie"].get("ids")\<close>, so no record is appended, the
  skip count is not incremented, and the call returns nothing.\<close>

theorem convert_counts_counterexample:
  "convert_item (JObj [(''movie'', JStr ''Inception'')]) = Inl AttributeError \<and>
   convert_export_to_import [JObj [(''movie'', JStr ''Inception'')]] = Inl AttributeError"
  by (simp add: convert_defs)


theorem convert_counts_witness:
  "list_all well_shaped [JObj ex_history_show, JObj ex_history_shadowed, JObj ex_watched_show] \<and>
   convert_export_to_import [JObj ex_history_show, JObj ex_history_shadowed, JObj ex_watched_show]
     = Inr ([[(''tvdb_id'', JInt 55), (''type'', JStr ''episode''),
              (''watched_at'', JStr ''2020-01-01T00:00:00Z'')],
             [(''tvdb_id'', JInt 55), (''type'', JStr ''show''),
              (''watched_at'', JStr ''2019-05-05T00:00:00Z'')]], 1) \<and>
   (\<exists>res sk. convert_export_to_import
        [JObj ex_history_show, JObj ex_history_shadowed, JObj ex_watched_show] = Inr (res, sk) \<and>
      length res + sk = length [JObj ex_history_show, JObj ex_history_shadowed, JObj ex_watched_show])"
proof -
  have l: "list_all well_shaped [JObj ex_history_show, JObj ex_history_shadowed, JObj ex_watched_show]"
    by (simp add: ex_history_show_def ex_history_shadowed_def ex_watched_show_def
        well_shaped_def key_ok_def sub_record_ok_def ids_ok_def dict_get_def)
  from convert_counts [of "[JObj ex_history_show, JObj ex_history_shadowed, JObj ex_watched_show]"] l
  have "\<exists>res sk. convert_export_to_import
        [JObj ex_history_show, JObj ex_history_shadowed, JObj ex_watched_show] = Inr (res, sk) \<and>
      length res + sk = length [JObj ex_history_show, JObj ex_history_shadowed, JObj ex_watched_show]"
    by blast
  with l counts_run show ?thesis by blast
qed

text \<open>
  C2 (as amended). Every record that \<^verbatim>\<open>convert_export_to_import\<close> emits has exactly one
  identifier field (one of \<^verbatim>\<open>imdb_id\<close>, \<^verbatim>\<open>tmdb_id\<close>, \<^verbatim>\<open>tvdb_id\<close>, \<^verbatim>\<open>trakt_id\<close>), pairwise
  distinct keys, and a \<^verbatim>\<open>type\<close> field; it comes from an item of the input that is a
  mapping, and its \<^verbatim>\<open>type\<close> is that item's own \<^verbatim>\<open>type\<close> value, copied whatever it is (so
  possibly empty or null), when the item has the key, and \<^verbatim>\<open>"movie"\<close> or \<^verbatim>\<open>"show"\<close>
  otherwise.
\<close>

theorem emitted_record_shape:
  assumes "convert_export_to_import data = Inr (res, sk)" "r \<in> set res"
  shows "length (filter (\<lambda>k. k \<in> set id_fields) (map fst r)) = 1 \<and>
         distinct (map fst r) \<and>
         (\<exists>d. JObj d \<in> set data \<and> convert_item (JObj d) = Inr (Emit r) \<and>
            (case map_of d ''type'' of
               Some t \<Rightarrow> map_of r ''type'' = Some t
             | None \<Rightarrow> map_of r ''type'' = Some (JStr ''movie'') \<or>
                       map_of r ''type'' = Some (JStr ''show'')))"
proof -
  from convert_emitted_from_item [OF assms] obtain item
    where item: "item \<in> set data" "convert_item item = Inr (Emit r)" by blast
  from item(2) obtain d k v t w where d: "item = JObj d" and k: "k \<in> set id_fields"
    and r: "r = spec_record d k v t w"
    and w: "case map_of d ''type'' of
       Some t' \<Rightarrow> t = t' \<and> w = dict_get d ''watched_at''
     | None \<Rightarrow> (t = JStr ''movie'' \<or> t = JStr ''show'') \<and> w = dict_get d ''last_watched_at''"
    by (rule convert_item_Emit)
  have 1: "length (filter (\<lambda>k. k \<in> set id_fields) (map fst r)) = 1"
    unfolding r by (simp add: spec_record_keys [OF k])
  have 2: "distinct (map fst r)"
    unfolding r by (rule spec_record_distinct [OF k])
  have 3: "case map_of d ''type'' of
               Some t \<Rightarrow> map_of r ''type'' = Some t
             | None \<Rightarrow> map_of r ''type'' = Some (JStr ''movie'') \<or>
                       map_of r ''type'' = Some (JStr ''show'')"
    using w unfolding r by (auto simp add: spec_record_lookup [OF k] split: option.splits)
  from item d 1 2 3 show ?thesis by blast
qed

text \<open>The claim as stated fails on a history item whose \<^verbatim>\<open>type\<close> is the empty string: the
  record is emitted with that empty \<^verbatim>\<open>type\<close>.\<close>

theorem emitted_record_shape_counterexample:
  "convert_export_to_import
     [JObj [(''type'', JStr ''''), (''movie'', JObj [(''ids'', JObj [(''imdb'', JStr ''tt123'')])])]]
     = Inr ([[(''imdb_id'', JStr ''tt123''), (''type'', JStr '''')]], 0) \<and>
   dict_get [(''imdb_id'', JStr ''tt123''), (''type'', JStr '''')] ''type'' = JStr []"
  by (simp add: convert_defs)



theorem emitted_record_shape_witness:
  "convert_export_to_import [ex_empty_type]
     = Inr ([[(''imdb_id'', JStr ''tt123''), (''type'', JStr '''')]], 0) \<and>
   [(''imdb_id'', JStr ''tt123''), (''type'', JStr '''')]
     \<in> set [[(''imdb_id'', JStr ''tt123''), (''type'', JStr '''')]] \<and>
   length (filter (\<lambda>k. k \<in> set id_fields)
     (map fst [(''imdb_id'', JStr ''tt123''), (''type'', JStr '''')])) = 1"
proof -
  have run: "convert_export_to_import [ex_empty_type]
     = Inr ([[(''imdb_id'', JStr ''tt123''), (''type'', JStr '''')]], 0)"
    by (simp add: ex_empty_type_def convert_defs)
  have mem: "[(''imdb_id'', JStr ''tt123''), (''type'', JStr '''')]
     \<in> set [[(''imdb_id'', JStr ''tt123''), (''type'', JStr '''')]]"
    by simp
  from emitted_record_shape [OF run mem]
  have "length (filter (\<lambda>k. k \<in> set id_fields)
     (map fst [(''imdb_id'', JStr ''tt123''), (''type'', JStr '''')])) = 1"
    by (rule conjunct1)
  with run mem show ?thesis by blast
qed

text \<open>
  C9. In every record that \<^verbatim>\<open>convert_export_to_import\<close> emits, the identifier field (the
  only one of the record) holds a truthy value: not null, not the empty string, not zero.
\<close>

theorem identifier_truthy:
  assumes "convert_export_to_import data = Inr (res, sk)" "r \<in> set res"
  shows "\<exists>k v. k \<in> set id_fields \<and> map_of r k = Some v \<and> truthy v \<and>
           v \<noteq> JNull \<and> v \<noteq> JStr [] \<and> v \<noteq> JInt 0 \<and>
           filter (\<lambda>k'. k' \<in> set id_fields) (map fst r) = [k]"
proof -
  from convert_emitted_from_item [OF assms] obtain item
    where item: "convert_item item = Inr (Emit r)" by blast
  from item obtain d k v t w where k: "k \<in> set id_fields" and v: "truthy v"
    and r: "r = spec_record d k v t w"
    by (rule convert_item_Emit)
  from v have "v \<noteq> JNull" "v \<noteq> JStr []" "v \<noteq> JInt 0" by auto
  with k v show ?thesis
    unfolding r using spec_record_lookup(1) [OF k, of d v t w] spec_record_keys [OF k, of d v t w]
    by blast
qed

theorem identifier_truthy_witness:
  "\<exists>k v. k \<in> set id_fields \<and>
      map_of [(''tvdb_id'', JInt 55), (''type'', JStr ''show''),
              (''watched_at'', JStr ''2019-05-05T00:00:00Z'')] k = Some v \<and> truthy v \<and>
      v \<noteq> JNull \<and> v \<noteq> JStr [] \<and> v \<noteq> JInt 0 \<and>
      filter (\<lambda>k'. k' \<in> set id_fields)
        (map fst [(''tvdb_id'', JInt 55), (''type'', JStr ''show''),
              (''watched_at'', JStr ''2019-05-05T00:00:00Z'')]) = [k]"
  by (rule identifier_truthy [OF counts_run]) simp

text \<open>
  C10. An item with an \<^verbatim>\<open>action\<close> key and no \<^verbatim>\<open>type\<close> key, first in a sequence, makes the
  detector answer \<^verbatim>\<open>"history"\<close>; the normalizer never looks at \<^verbatim>\<open>action\<close> (it does the
  same on the item without that key), and whenever it returns on the item it has applied
  the watched-movies rule, else the watched-shows rule (type \<^verbatim>\<open>"movie"\<close> or \<^verbatim>\<open>"show"\<close>,
  timestamp from \<^verbatim>\<open>last_watched_at\<close>), else skipped it; on an item of the data model's
  shape it returns. The two example items are classified as history; the first becomes a
  \<^verbatim>\<open>"movie"\<close> record without its \<^verbatim>\<open>watched_at\<close>, the second, an episode, is skipped.
\<close>

theorem action_without_type:
  assumes "map_of d ''action'' = Some a" "map_of d ''type'' = None"
  shows "detect_file_type (JObj d # rest) = Inr ''history'' \<and>
    (convert_item (JObj d) = Inr out \<longrightarrow>
       out = (case ids_of d ''movie'' of
                Some ids \<Rightarrow> spec_assemble d ids (JStr ''movie'') (dict_get d ''last_watched_at'')
              | None \<Rightarrow>
                  (case ids_of d ''show'' of
                     Some ids \<Rightarrow> spec_assemble d ids (JStr ''show'') (dict_get d ''last_watched_at'')
                   | None \<Rightarrow> Skip))) \<and>
    (well_shaped (JObj d) \<longrightarrow> (\<exists>out. convert_item (JObj d) = Inr out)) \<and>
    convert_item (JObj d) = convert_item (JObj (filter (\<lambda>p. fst p \<noteq> ''action'') d))"
proof (intro conjI impI)
  from assms(1) show "detect_file_type (JObj d # rest) = Inr ''history''"
    by (simp add: detect_file_type_def)
next
  assume "convert_item (JObj d) = Inr out"
  from convert_item_partial [OF this] assms(2)
  show "out = (case ids_of d ''movie'' of
                Some ids \<Rightarrow> spec_assemble d ids (JStr ''movie'') (dict_get d ''last_watched_at'')
              | None \<Rightarrow>
                  (case ids_of d ''show'' of
                     Some ids \<Rightarrow> spec_assemble d ids (JStr ''show'') (dict_get d ''last_watched_at'')
                   | None \<Rightarrow> Skip))"
    by (simp add: spec_normalize_def)
next
  assume "well_shaped (JObj d)"
  then show "\<exists>out. convert_item (JObj d) = Inr out"
    by (simp add: convert_item_refines)
next
  show "convert_item (JObj d) = convert_item (JObj (filter (\<lambda>p. fst p \<noteq> ''action'') d))"
    by (rule convert_item_lookups) (rule map_of_without_action)
qed

theorem action_without_type_witness:
  "map_of ex_action_movie ''action'' = Some (JStr ''scrobble'') \<and>
   map_of ex_action_movie ''type'' = None \<and>
   detect_file_type [JObj ex_action_movie] = Inr ''history'' \<and>
   convert_item (JObj ex_action_movie)
     = Inr (Emit [(''imdb_id'', JStr ''tt123''), (''type'', JStr ''movie'')]) \<and>
   map_of ex_action_episode ''action'' = Some (JStr ''scrobble'') \<and>
   map_of ex_action_episode ''type'' = None \<and>
   detect_file_type [JObj ex_action_episode] = Inr ''history'' \<and>
   convert_item (JObj ex_action_episode) = Inr Skip"
proof -
  have a1: "map_of ex_action_movie ''action'' = Some (JStr ''scrobble'')"
    and t1: "map_of ex_action_movie ''type'' = None"
    by (simp_all add: ex_action_movie_def)
  have a2: "map_of ex_action_episode ''action'' = Some (JStr ''scrobble'')"
    and t2: "map_of ex_action_episode ''type'' = None"
    by (simp_all add: ex_action_episode_def)
  from action_without_type [OF a1 t1, of "[]"]
  have d1: "detect_file_type [JObj ex_action_movie] = Inr ''history''" by (rule conjunct1)
  from action_without_type [OF a2 t2, of "[]"]
  have d2: "detect_file_type [JObj ex_action_episode] = Inr ''history''" by (rule conjunct1)
  have r1: "convert_item (JObj ex_action_movie)
     = Inr (Emit [(''imdb_id'', JStr ''tt123''), (''type'', JStr ''movie'')])"
    by (simp add: ex_action_movie_def convert_defs)
  have r2: "convert_item (JObj ex_action_episode) = Inr Skip"
    by (simp add: ex_action_episode_def convert_defs)
  from a1 t1 d1 r1 a2 t2 d2 r2 show ?thesis by blast
qed

end
